theory Spec2Isabelle
  imports Main "HOL-Library.Word"
begin

section \<open>The Consul cluster provider of protoactor-go\<close>

text \<open>
  A shallow embedding of \<^verbatim>\<open>cluster/consul/consul_provider.go\<close>. The \<^verbatim>\<open>Provider\<close>
  struct is a record. Every method takes the provider and returns it updated. The Consul
  client is not part of the repository: each call of it is answered by a function of the
  history of effects so far, so that a theorem holds for every behaviour of the directory.
  Every externally visible effect (a directory call, a publication on the event stream, a
  sleep, a log line, the start of a goroutine) is appended to a trace.
\<close>

subsection \<open>Values of the Go program\<close>

text \<open>\<^verbatim>\<open>time.Duration\<close> is a count of nanoseconds; the code only stores and passes it.\<close>

type_synonym duration = int

definition Second :: duration where
  "Second = 1000000000"

text \<open>
  Go's \<^verbatim>\<open>error\<close>: the package's own \<^verbatim>\<open>ProviderShuttingDownError\<close>, or an error of the
  Consul client with its message.
\<close>

datatype error = ProviderShuttingDownError | ClientError string

fun Error :: "error \<Rightarrow> string" where
  "Error ProviderShuttingDownError = ''consul cluster provider is shutting down''"
| "Error (ClientError m) = m"

text \<open>A call either returns, or panics on a nil interface or pointer.\<close>

datatype 'a outcome = Return 'a | Panic

text \<open>The \<^verbatim>\<open>%v\<close> verb of \<^verbatim>\<open>fmt.Sprintf\<close> on an \<^verbatim>\<open>int\<close>: its decimal digits.\<close>

definition digit :: "nat \<Rightarrow> char" where
  "digit d = ''0123456789'' ! d"

fun digits10 :: "nat \<Rightarrow> string" where
  "digits10 n =
     (if n < 10 then [digit n]
      else digits10 (n div 10) @ [digit (n mod 10)])"

definition fmt_int :: "int \<Rightarrow> string" where
  "fmt_int i = (if i < 0 then CHR ''-'' # digits10 (nat (- i)) else digits10 (nat i))"

text \<open>The constant \<^verbatim>\<open>api.HealthPassing\<close> of the Consul client.\<close>

definition HealthPassing :: string where
  "HealthPassing = ''passing''"

subsection \<open>Types of the Consul client and of the cluster package\<close>

record agent_service_check =
  DeregisterCriticalServiceAfter :: string
  TTL :: string

record agent_service_registration =
  reg_ID :: string
  reg_Name :: string
  reg_Tags :: "string list"
  reg_Address :: string
  reg_Port :: int
  reg_Meta :: "(string \<times> string) list"
  reg_Check :: agent_service_check

record agent_service =
  svc_ID :: string
  svc_Service :: string
  svc_Tags :: "string list"
  svc_Port :: int
  svc_Address :: string
  svc_Meta :: "(string \<times> string) list"

record health_check =
  CheckID :: string
  Status :: string

record service_entry =
  Service :: agent_service
  Checks :: "health_check list"

record query_options =
  WaitIndex :: "64 word"
  WaitTime :: duration

record query_meta =
  LastIndex :: "64 word"

text \<open>
  \<^verbatim>\<open>cluster.MemberStatusValue\<close> is an interface: a value of the type \<open>'v option\<close>,
  \<open>None\<close> being the nil interface. \<^verbatim>\<open>cluster.MemberStatus\<close> as \<^verbatim>\<open>notifyStatuses\<close>
  fills it.
\<close>

record 'v member_status =
  MemberID :: string
  Host :: string
  Port :: int
  Kinds :: "string list"
  Alive :: bool
  StatusValue :: "'v option"

record 'v serializer =
  Serialize :: "'v option \<Rightarrow> string"
  Deserialize :: "string \<Rightarrow> 'v option"

text \<open>A \<^verbatim>\<open>*cluster.Cluster\<close> is known here by its address alone.\<close>

type_synonym cluster_ref = nat

text \<open>Reading a Go \<^verbatim>\<open>map[string]string\<close>: a missing key, or a nil map, gives the empty string.\<close>

definition map_get :: "(string \<times> string) list \<Rightarrow> string \<Rightarrow> string" where
  "map_get m k = (case map_of m k of None \<Rightarrow> [] | Some s \<Rightarrow> s)"

subsection \<open>Effects\<close>

datatype task = HeartbeatTask | WatchTask

datatype 'v event =
    Call_ServiceRegister agent_service_registration
  | Call_ServiceDeregister string
  | Call_UpdateTTL string string string
  | Call_Services
  | Call_HealthService string string bool query_options
  | Publish cluster_ref "'v member_status option list"
  | Sleep duration
  | WaitGroup_Add nat
  | WaitGroup_Done
  | WaitGroup_Wait
  | Go task
  | Log string
  | Println string

text \<open>
  The Consul client, and the two library functions the provider calls on its values. The
  first argument of a call is the trace at the moment of the call.
  \<^verbatim>\<open>Agent().Services()\<close> returns a map; \<open>Agent_Services\<close> gives its entries in the order
  in which \<^verbatim>\<open>range\<close> visits them.
\<close>

record 'v consul =
  Agent_ServiceRegister :: "'v event list \<Rightarrow> agent_service_registration \<Rightarrow> error option"
  Agent_ServiceDeregister :: "'v event list \<Rightarrow> string \<Rightarrow> error option"
  Agent_UpdateTTL :: "'v event list \<Rightarrow> string \<Rightarrow> string \<Rightarrow> string \<Rightarrow> error option"
  Agent_Services :: "'v event list \<Rightarrow> (string \<times> agent_service) list \<times> error option"
  Health_Service :: "'v event list \<Rightarrow> string \<Rightarrow> string \<Rightarrow> bool \<Rightarrow> query_options
                       \<Rightarrow> error + (service_entry list \<times> query_meta)"
  AggregatedStatus :: "health_check list \<Rightarrow> string"
  Duration_String :: "duration \<Rightarrow> string"

subsection \<open>The provider\<close>

text \<open>
  The fields of \<^verbatim>\<open>Provider\<close>, but for \<^verbatim>\<open>client\<close> (the \<open>'v consul\<close> given to every
  function) and \<^verbatim>\<open>updateTTLWaitGroup\<close> (its calls are events). The field \<^verbatim>\<open>id\<close> is
  \<open>p_id\<close>.
\<close>

record 'v provider =
  cluster :: "cluster_ref option"
  deregistered :: bool
  shutdown :: bool
  p_id :: string
  clusterName :: string
  address :: string
  port :: int
  knownKinds :: "string list"
  index :: "64 word"
  ttl :: duration
  refreshTTL :: duration
  deregisterCritical :: duration
  blockingWaitTime :: duration
  statusValue :: "'v option"
  statusValueSerializer :: "'v serializer option"
  clusterError :: "error option"

record 'v world = "'v provider" +
  trace :: "'v event list"

definition emit :: "'v world \<Rightarrow> 'v event \<Rightarrow> 'v world" where
  "emit w ev = w\<lparr>trace := trace w @ [ev]\<rparr>"

text \<open>The effects of a call: what the trace of \<open>w1\<close> has after the trace of \<open>w\<close>.\<close>

definition new_events :: "'v world \<Rightarrow> 'v world \<Rightarrow> 'v event list" where
  "new_events w w1 = drop (length (trace w)) (trace w1)"

text \<open>
  The struct literal of \<^verbatim>\<open>NewWithConfig\<close>: the fields it does not name have Go's zero
  values. The argument of \<open>NewWithConfig\<close> is what \<^verbatim>\<open>api.NewClient\<close> returned as error.
\<close>

definition newProvider :: "'v world" where
  "newProvider =
     \<lparr>cluster = None, deregistered = False, shutdown = False, p_id = [],
      clusterName = [], address = [], port = 0, knownKinds = [], index = 0,
      ttl = 3 * Second, refreshTTL = 1 * Second,
      deregisterCritical = 60 * Second, blockingWaitTime = 20 * Second,
      statusValue = None, statusValueSerializer = None, clusterError = None,
      trace = []\<rparr>"

definition NewWithConfig :: "error option \<Rightarrow> error + 'v world" where
  "NewWithConfig client_err =
     (case client_err of Some err \<Rightarrow> Inl err | None \<Rightarrow> Inr newProvider)"

definition registration :: "'v consul \<Rightarrow> 'v serializer \<Rightarrow> 'v world \<Rightarrow> agent_service_registration" where
  "registration c sz w =
     \<lparr>reg_ID = p_id w, reg_Name = clusterName w, reg_Tags = knownKinds w,
      reg_Address = address w, reg_Port = port w,
      reg_Meta = [(''StatusValue'', Serialize sz (statusValue w))],
      reg_Check = \<lparr>DeregisterCriticalServiceAfter = Duration_String c (deregisterCritical w),
                   TTL = Duration_String c (ttl w)\<rparr>\<rparr>"

definition registerService :: "'v consul \<Rightarrow> 'v world \<Rightarrow> error option outcome \<times> 'v world" where
  "registerService c w =
     (case statusValueSerializer w of
        None \<Rightarrow> (Panic, w)
      | Some sz \<Rightarrow>
          (let s = registration c sz w
           in (Return (Agent_ServiceRegister c (trace w) s), emit w (Call_ServiceRegister s))))"

definition deregisterService :: "'v consul \<Rightarrow> 'v world \<Rightarrow> error option \<times> 'v world" where
  "deregisterService c w =
     (Agent_ServiceDeregister c (trace w) (p_id w), emit w (Call_ServiceDeregister (p_id w)))"

text \<open>\<^verbatim>\<open>blockingUpdateTTLFunc\<close> is the variable that holds \<^verbatim>\<open>blockingUpdateTTL\<close>.\<close>

definition blockingUpdateTTL :: "'v consul \<Rightarrow> 'v world \<Rightarrow> error option \<times> 'v world" where
  "blockingUpdateTTL c w =
     (let r = Agent_UpdateTTL c (trace w) (''service:'' @ p_id w) [] HealthPassing
      in (r, (emit w (Call_UpdateTTL (''service:'' @ p_id w) [] HealthPassing))\<lparr>clusterError := r\<rparr>))"

definition DeregisterMember :: "'v consul \<Rightarrow> 'v world \<Rightarrow> error option \<times> 'v world" where
  "DeregisterMember c w =
     (case deregisterService c w of
        (Some err, w1) \<Rightarrow> (Some err, emit w1 (Println (Error err)))
      | (None, w1) \<Rightarrow> (None, w1\<lparr>deregistered := True\<rparr>))"

definition Shutdown :: "'v consul \<Rightarrow> 'v world \<Rightarrow> error option \<times> 'v world" where
  "Shutdown c w =
     (if shutdown w then (None, w)
      else
        (let w1 = emit (w\<lparr>shutdown := True\<rparr>) WaitGroup_Wait
         in if \<not> deregistered w1
            then (case DeregisterMember c w1 of
                    (Some err, w2) \<Rightarrow> (Some err, w2)
                  | (None, w2) \<Rightarrow> (None, w2))
            else (None, w1)))"

text \<open>The member of one directory record, as the body of the loop of \<^verbatim>\<open>notifyStatuses\<close> builds it.\<close>

definition memberStatus :: "'v consul \<Rightarrow> 'v serializer \<Rightarrow> string \<Rightarrow> service_entry \<Rightarrow> 'v member_status" where
  "memberStatus c sz cname v =
     (let key = cname @ ''/'' @ svc_Address (Service v) @ '':'' @ fmt_int (svc_Port (Service v));
          memberID = key;
          memberStatusVal = Deserialize sz (map_get (svc_Meta (Service v)) ''StatusValue'')
      in \<lparr>MemberID = memberID, Host = svc_Address (Service v), Port = svc_Port (Service v),
          Kinds = svc_Tags (Service v),
          Alive = (length (Checks v) > 0 \<and> AggregatedStatus c (Checks v) = HealthPassing),
          StatusValue = memberStatusVal\<rparr>)"

text \<open>
  The loop \<^verbatim>\<open>for i, v := range statuses\<close>: \<open>i\<close> is the index of the head of the records
  still to visit, \<open>res\<close> the slice made before the loop.
\<close>

fun notifyStatuses_range ::
  "'v consul \<Rightarrow> nat \<Rightarrow> service_entry list \<Rightarrow> 'v member_status option list \<Rightarrow> 'v world
     \<Rightarrow> unit outcome \<times> 'v member_status option list \<times> 'v world" where
  "notifyStatuses_range c i [] res w = (Return (), res, w)"
| "notifyStatuses_range c i (v # vs) res w =
     (case statusValueSerializer w of
        None \<Rightarrow> (Panic, res, w)
      | Some sz \<Rightarrow>
          (let ms = memberStatus c sz (clusterName w) v;
               res1 = res[i := Some ms];
               w1 = (if MemberID ms = p_id w then w\<lparr>knownKinds := svc_Tags (Service v)\<rparr> else w)
           in notifyStatuses_range c (Suc i) vs res1 w1))"

definition notifyStatuses :: "'v consul \<Rightarrow> 'v world \<Rightarrow> unit outcome \<times> 'v world" where
  "notifyStatuses c w =
     (let opts = \<lparr>WaitIndex = index w, WaitTime = blockingWaitTime w\<rparr>;
          w1 = emit w (Call_HealthService (clusterName w) [] False opts)
      in case Health_Service c (trace w) (clusterName w) [] False opts of
           Inl err \<Rightarrow> (Return (), emit w1 (Log (''Error '' @ Error err)))
         | Inr (statuses, meta) \<Rightarrow>
             (let w2 = w1\<lparr>index := LastIndex meta\<rparr>;
                  res = replicate (length statuses) None
              in case notifyStatuses_range c 0 statuses res w2 of
                   (Panic, res1, w3) \<Rightarrow> (Panic, w3)
                 | (Return u, res1, w3) \<Rightarrow>
                     (case cluster w3 of
                        None \<Rightarrow> (Panic, w3)
                      | Some cl \<Rightarrow> (Return (), emit w3 (Publish cl res1)))))"

definition blockingStatusChange :: "'v consul \<Rightarrow> 'v world \<Rightarrow> unit outcome \<times> 'v world" where
  "blockingStatusChange c w = notifyStatuses c w"

text \<open>\<^verbatim>\<open>UpdateTTL\<close> starts the heartbeat goroutine and returns.\<close>

definition UpdateTTL :: "'v world \<Rightarrow> 'v world" where
  "UpdateTTL w = emit w (Go HeartbeatTask)"

text \<open>The inner loop \<^verbatim>\<open>for id := range services\<close>: true when it leaves by \<^verbatim>\<open>continue OUTER\<close>.\<close>

fun range_services :: "string list \<Rightarrow> string \<Rightarrow> bool" where
  "range_services [] pid = False"
| "range_services (i # is) pid = (if i = pid then True else range_services is pid)"

text \<open>The lines the heartbeat goroutine gives to \<^verbatim>\<open>log.Println\<close>.\<close>

definition log_ttl_failure :: string where
  "log_ttl_failure =
     ''[CLUSTER] [CONSUL] Failure refreshing service TTL. Trying to reregister service if not in consul.''"

definition log_service_found :: string where
  "log_service_found = ''[CLUSTER] [CONSUL] Service found in consul -> doing nothing''"

text \<open>\<^verbatim>\<open>Println\<close> puts a space between its two operands, after the one that ends the first.\<close>

definition log_reregister_error :: "error \<Rightarrow> string" where
  "log_reregister_error err =
     ''[CLUSTER] [CONSUL] Error reregistering service '' @ '' '' @ Error err"

definition log_reregistered :: string where
  "log_reregistered = ''[CLUSTER] [CONSUL] Reregistered service in consul''"

text \<open>One pass through the body of the loop \<^verbatim>\<open>for !p.shutdown\<close> of the heartbeat goroutine.\<close>

definition UpdateTTL_body :: "'v consul \<Rightarrow> 'v world \<Rightarrow> unit outcome \<times> 'v world" where
  "UpdateTTL_body c w =
     (case blockingUpdateTTL c w of
        (None, w1) \<Rightarrow> (Return (), emit w1 (Sleep (refreshTTL w1)))
      | (Some err, w1) \<Rightarrow>
          (let w2 = emit w1 (Log log_ttl_failure);
               services = fst (Agent_Services c (trace w2));
               w3 = emit w2 Call_Services
           in if range_services (map fst services) (p_id w3)
              then (Return (), emit (emit w3 (Log log_service_found)) (Sleep (refreshTTL w3)))
              else
                (case registerService c w3 of
                   (Panic, w4) \<Rightarrow> (Panic, w4)
                 | (Return (Some err1), w4) \<Rightarrow>
                     (Return (),
                      emit (emit w4 (Log (log_reregister_error err1))) (Sleep (refreshTTL w4)))
                 | (Return None, w4) \<Rightarrow>
                     (Return (), emit (emit w4 (Log log_reregistered)) (Sleep (refreshTTL w4))))))"

text \<open>
  A loop of a goroutine ends when it sees the shutdown flag (\<open>Exited\<close>), dies in a panic
  (\<open>Crashed\<close>), or is still going after the passes it was given (\<open>Running\<close>).
\<close>

datatype loop_end = Exited | Crashed | Running

fun UpdateTTL_loop :: "nat \<Rightarrow> 'v consul \<Rightarrow> 'v world \<Rightarrow> loop_end \<times> 'v world" where
  "UpdateTTL_loop 0 c w = (if shutdown w then (Exited, w) else (Running, w))"
| "UpdateTTL_loop (Suc n) c w =
     (if shutdown w then (Exited, w)
      else (case UpdateTTL_body c w of
              (Panic, w1) \<Rightarrow> (Crashed, w1)
            | (Return u, w1) \<Rightarrow> UpdateTTL_loop n c w1))"

text \<open>The goroutine: the deferred \<^verbatim>\<open>Done\<close> runs when the function ends, also by a panic.\<close>

definition UpdateTTL_task :: "nat \<Rightarrow> 'v consul \<Rightarrow> 'v world \<Rightarrow> loop_end \<times> 'v world" where
  "UpdateTTL_task n c w =
     (case UpdateTTL_loop n c (emit w (WaitGroup_Add 1)) of
        (Running, w1) \<Rightarrow> (Running, w1)
      | (r, w1) \<Rightarrow> (r, emit w1 WaitGroup_Done))"

definition RegisterMember ::
  "'v consul \<Rightarrow> cluster_ref option \<Rightarrow> string \<Rightarrow> string \<Rightarrow> int \<Rightarrow> string list \<Rightarrow> 'v option
     \<Rightarrow> 'v serializer option \<Rightarrow> 'v world \<Rightarrow> error option outcome \<times> 'v world" where
  "RegisterMember c cl cname addr prt kinds sv ser w =
     (let w0 = w\<lparr>cluster := cl,
                 p_id := cname @ ''@'' @ addr @ '':'' @ fmt_int prt,
                 clusterName := cname, address := addr, port := prt, knownKinds := kinds,
                 statusValue := sv, statusValueSerializer := ser\<rparr>
      in case registerService c w0 of
           (Panic, w1) \<Rightarrow> (Panic, w1)
         | (Return (Some err), w1) \<Rightarrow> (Return (Some err), w1)
         | (Return None, w1) \<Rightarrow>
             (case blockingUpdateTTL c w1 of
                (Some err, w2) \<Rightarrow> (Return (Some err), w2)
              | (None, w2) \<Rightarrow>
                  (case blockingStatusChange c w2 of
                     (Panic, w3) \<Rightarrow> (Panic, w3)
                   | (Return u, w3) \<Rightarrow> (Return None, UpdateTTL w3))))"

definition UpdateMemberStatusValue ::
  "'v consul \<Rightarrow> 'v option \<Rightarrow> 'v world \<Rightarrow> error option outcome \<times> 'v world" where
  "UpdateMemberStatusValue c sv w =
     (let w1 = w\<lparr>statusValue := sv\<rparr>
      in if statusValue w1 = None then (Return None, w1)
         else if shutdown w1 then (Return (Some ProviderShuttingDownError), w1)
         else registerService c w1)"

text \<open>\<^verbatim>\<open>MonitorMemberStatusChanges\<close> starts the watch goroutine, whose loop follows.\<close>

definition MonitorMemberStatusChanges :: "'v world \<Rightarrow> 'v world" where
  "MonitorMemberStatusChanges w = emit w (Go WatchTask)"

fun MonitorMemberStatusChanges_loop :: "nat \<Rightarrow> 'v consul \<Rightarrow> 'v world \<Rightarrow> loop_end \<times> 'v world" where
  "MonitorMemberStatusChanges_loop 0 c w = (if shutdown w then (Exited, w) else (Running, w))"
| "MonitorMemberStatusChanges_loop (Suc n) c w =
     (if shutdown w then (Exited, w)
      else (case notifyStatuses c w of
              (Panic, w1) \<Rightarrow> (Crashed, w1)
            | (Return u, w1) \<Rightarrow> MonitorMemberStatusChanges_loop n c w1))"

definition GetHealthStatus :: "'v world \<Rightarrow> error option" where
  "GetHealthStatus w = clusterError w"

subsection \<open>The provider as a state machine\<close>

text \<open>
  What can happen to a provider: a call of one of its methods, or one pass of one of its
  two goroutines, which look at the shutdown flag before each pass. The foreground calls
  and the goroutines interleave, so a history of the provider is a list of these steps in
  any order.
\<close>

datatype 'v operation =
    Op_RegisterMember "cluster_ref option" string string int "string list" "'v option"
      "'v serializer option"
  | Op_DeregisterMember
  | Op_Shutdown
  | Op_UpdateTTL
  | Op_UpdateTTL_pass
  | Op_UpdateMemberStatusValue "'v option"
  | Op_blockingStatusChange
  | Op_MonitorMemberStatusChanges
  | Op_MonitorMemberStatusChanges_pass
  | Op_GetHealthStatus

fun exec :: "'v consul \<Rightarrow> 'v operation \<Rightarrow> 'v world \<Rightarrow> 'v world" where
  "exec c (Op_RegisterMember cl cname addr prt kinds sv ser) w =
     snd (RegisterMember c cl cname addr prt kinds sv ser w)"
| "exec c Op_DeregisterMember w = snd (DeregisterMember c w)"
| "exec c Op_Shutdown w = snd (Shutdown c w)"
| "exec c Op_UpdateTTL w = UpdateTTL w"
| "exec c Op_UpdateTTL_pass w = (if shutdown w then w else snd (UpdateTTL_body c w))"
| "exec c (Op_UpdateMemberStatusValue sv) w = snd (UpdateMemberStatusValue c sv w)"
| "exec c Op_blockingStatusChange w = snd (blockingStatusChange c w)"
| "exec c Op_MonitorMemberStatusChanges w = MonitorMemberStatusChanges w"
| "exec c Op_MonitorMemberStatusChanges_pass w =
     (if shutdown w then w else snd (notifyStatuses c w))"
| "exec c Op_GetHealthStatus w = w"

fun run :: "'v consul \<Rightarrow> 'v operation list \<Rightarrow> 'v world \<Rightarrow> 'v world" where
  "run c [] w = w"
| "run c (op # ops) w = run c ops (exec c op w)"

text \<open>
  The identities a provider can have: none before the first \<^verbatim>\<open>RegisterMember\<close>, and then
  the one \<^verbatim>\<open>RegisterMember\<close> formats, which starts with the cluster name and \<^verbatim>\<open>@\<close>.
\<close>

definition id_from_join :: "'v world \<Rightarrow> bool" where
  "id_from_join w \<longleftrightarrow> p_id w = [] \<or> (\<exists>rest. p_id w = clusterName w @ ''@'' @ rest)"

subsection \<open>A directory and a provider to run the model on\<close>

text \<open>
  A serializer of status values that are strings, a directory record of the instance
  \<^verbatim>\<open>h:1\<close> of the cluster \<^verbatim>\<open>c\<close>, and four behaviours of the directory: every call
  succeeds; every call fails; the renewal of the TTL fails while the instance is still
  listed; the renewal fails and the instance is no longer listed.
\<close>

definition example_serializer :: "string serializer" where
  "example_serializer =
     \<lparr>Serialize = (\<lambda>v. case v of None \<Rightarrow> [] | Some s \<Rightarrow> s),
      Deserialize = (\<lambda>s. if s = [] then None else Some s)\<rparr>"

definition example_entry :: "string list \<Rightarrow> health_check list \<Rightarrow> service_entry" where
  "example_entry tags checks =
     \<lparr>Service = \<lparr>svc_ID = ''c@h:1'', svc_Service = ''c'', svc_Tags = tags, svc_Port = 1,
                 svc_Address = ''h'', svc_Meta = [(''StatusValue'', ''up'')]\<rparr>,
      Checks = checks\<rparr>"

definition ttl_check :: "string \<Rightarrow> health_check" where
  "ttl_check st = \<lparr>CheckID = ''service:c@h:1'', Status = st\<rparr>"

definition consul_up :: "string consul" where
  "consul_up =
     \<lparr>Agent_ServiceRegister = (\<lambda>tr r. None),
      Agent_ServiceDeregister = (\<lambda>tr i. None),
      Agent_UpdateTTL = (\<lambda>tr i out st. None),
      Agent_Services = (\<lambda>tr. ([(''c@h:1'', Service (example_entry [''A'', ''B''] []))], None)),
      Health_Service = (\<lambda>tr name tag passing q.
         if WaitIndex q = 0
         then Inr ([example_entry [''A'', ''B''] [ttl_check ''passing'']], \<lparr>LastIndex = 1\<rparr>)
         else Inr ([example_entry [''A''] [ttl_check ''passing''],
                    (example_entry [''B''] [])\<lparr>Service := (Service (example_entry [''B''] []))
                       \<lparr>svc_ID := ''c@h:2'', svc_Port := 2\<rparr>\<rparr>],
                   \<lparr>LastIndex = 2\<rparr>)),
      AggregatedStatus = (\<lambda>cs. if list_all (\<lambda>ch. Status ch = ''passing'') cs
                                 then ''passing'' else ''critical''),
      Duration_String = (\<lambda>d. if d = 60 * Second then ''1m0s'' else fmt_int (d div Second) @ ''s'')\<rparr>"

definition consul_down :: "string consul" where
  "consul_down =
     consul_up
       \<lparr>Agent_ServiceRegister := (\<lambda>tr r. Some (ClientError ''connection refused'')),
        Agent_ServiceDeregister := (\<lambda>tr i. Some (ClientError ''connection refused'')),
        Agent_UpdateTTL := (\<lambda>tr i out st. Some (ClientError ''connection refused'')),
        Agent_Services := (\<lambda>tr. ([], Some (ClientError ''connection refused''))),
        Health_Service := (\<lambda>tr name tag passing q. Inl (ClientError ''connection refused''))\<rparr>"

definition consul_ttl_lost :: "string consul" where
  "consul_ttl_lost =
     consul_up\<lparr>Agent_UpdateTTL := (\<lambda>tr i out st. Some (ClientError ''unknown check''))\<rparr>"

definition consul_evicted :: "string consul" where
  "consul_evicted =
     consul_up\<lparr>Agent_UpdateTTL := (\<lambda>tr i out st. Some (ClientError ''unknown check'')),
               Agent_Services := (\<lambda>tr. ([], None))\<rparr>"

text \<open>The provider after \<^verbatim>\<open>RegisterMember\<close> with the kinds \<^verbatim>\<open>A\<close> and \<^verbatim>\<open>B\<close>.\<close>

definition joined :: "string world" where
  "joined =
     snd (RegisterMember consul_up (Some 0) ''c'' ''h'' 1 [''A'', ''B''] (Some ''up'')
            (Some example_serializer) newProvider)"

text \<open>The same provider after a \<^verbatim>\<open>Shutdown\<close> that went well.\<close>

definition departed :: "string world" where
  "departed = snd (Shutdown consul_up joined)"

section \<open>Properties\<close>

subsection \<open>Evaluating the model\<close>

lemmas provider_defs =
  RegisterMember_def registerService_def registration_def deregisterService_def
  blockingUpdateTTL_def blockingStatusChange_def DeregisterMember_def Shutdown_def
  notifyStatuses_def memberStatus_def UpdateTTL_def UpdateTTL_body_def
  UpdateMemberStatusValue_def MonitorMemberStatusChanges_def GetHealthStatus_def
  emit_def new_events_def map_get_def fmt_int_def digit_def HealthPassing_def Let_def

lemmas example_defs =
  example_serializer_def example_entry_def ttl_check_def consul_up_def consul_down_def
  consul_ttl_lost_def consul_evicted_def newProvider_def Second_def

lemma Duration_String_examples:
  "Duration_String consul_up (60 * Second) = ''1m0s''"
  "Duration_String consul_up (3 * Second) = ''3s''"
  "Duration_String consul_down = Duration_String consul_up"
  "Duration_String consul_ttl_lost = Duration_String consul_up"
  "Duration_String consul_evicted = Duration_String consul_up"
  by (simp_all add: consul_up_def consul_down_def consul_ttl_lost_def consul_evicted_def
      Second_def fmt_int_def digit_def)

lemma consul_up_calls:
  "Agent_ServiceRegister consul_up tr r = None"
  "Agent_ServiceDeregister consul_up tr i = None"
  "Agent_UpdateTTL consul_up tr i out st = None"
  "Agent_Services consul_up tr = ([(''c@h:1'', Service (example_entry [''A'', ''B''] []))], None)"
  by (simp_all add: consul_up_def)

lemma consul_down_calls:
  "Agent_ServiceRegister consul_down tr r = Some (ClientError ''connection refused'')"
  "Agent_ServiceDeregister consul_down tr i = Some (ClientError ''connection refused'')"
  "Agent_UpdateTTL consul_down tr i out st = Some (ClientError ''connection refused'')"
  "Agent_Services consul_down tr = ([], Some (ClientError ''connection refused''))"
  "Health_Service consul_down tr name tag passing q = Inl (ClientError ''connection refused'')"
  by (simp_all add: consul_down_def)

lemma consul_ttl_lost_calls:
  "Agent_ServiceRegister consul_ttl_lost tr r = None"
  "Agent_UpdateTTL consul_ttl_lost tr i out st = Some (ClientError ''unknown check'')"
  "Agent_Services consul_ttl_lost tr = ([(''c@h:1'', Service (example_entry [''A'', ''B''] []))], None)"
  by (simp_all add: consul_ttl_lost_def consul_up_def)

lemma consul_evicted_calls:
  "Agent_ServiceRegister consul_evicted tr r = None"
  "Agent_UpdateTTL consul_evicted tr i out st = Some (ClientError ''unknown check'')"
  "Agent_Services consul_evicted tr = ([], None)"
  by (simp_all add: consul_evicted_def consul_up_def)

lemma joined_eq:
  "joined =
     \<lparr>cluster = Some 0, deregistered = False, shutdown = False, p_id = ''c@h:1'',
      clusterName = ''c'', address = ''h'', port = 1, knownKinds = [''A'', ''B''], index = 1,
      ttl = 3000000000, refreshTTL = 1000000000, deregisterCritical = 60000000000,
      blockingWaitTime = 20000000000, statusValue = Some ''up'',
      statusValueSerializer = Some example_serializer, clusterError = None,
      trace =
        [Call_ServiceRegister
           \<lparr>reg_ID = ''c@h:1'', reg_Name = ''c'', reg_Tags = [''A'', ''B''], reg_Address = ''h'',
            reg_Port = 1, reg_Meta = [(''StatusValue'', ''up'')],
            reg_Check = \<lparr>DeregisterCriticalServiceAfter = ''1m0s'', TTL = ''3s''\<rparr>\<rparr>,
         Call_UpdateTTL ''service:c@h:1'' [] ''passing'',
         Call_HealthService ''c'' [] False \<lparr>WaitIndex = 0, WaitTime = 20000000000\<rparr>,
         Publish 0
           [Some \<lparr>MemberID = ''c/h:1'', Host = ''h'', Port = 1, Kinds = [''A'', ''B''],
                  Alive = True, StatusValue = Some ''up''\<rparr>],
         Go HeartbeatTask]\<rparr>"
  by (simp add: joined_def provider_defs example_defs)

lemma departed_eq:
  "departed =
     joined\<lparr>shutdown := True, deregistered := True,
            trace := trace joined @ [WaitGroup_Wait, Call_ServiceDeregister ''c@h:1'']\<rparr>"
  by (simp add: departed_def joined_eq Shutdown_def DeregisterMember_def deregisterService_def
      emit_def Let_def example_defs)

lemma joined_fields:
  "\<not> shutdown joined" "\<not> deregistered joined" "p_id joined = ''c@h:1''"
  "clusterName joined = ''c''" "address joined = ''h''" "port joined = 1"
  "knownKinds joined = [''A'', ''B'']" "index joined = 1" "cluster joined = Some 0"
  "statusValue joined = Some ''up''" "statusValueSerializer joined = Some example_serializer"
  "ttl joined = 3 * Second" "refreshTTL joined = Second" "deregisterCritical joined = 60 * Second"
  "blockingWaitTime joined = 20 * Second"
  by (simp_all add: joined_eq Second_def)

lemma departed_fields:
  "shutdown departed" "deregistered departed" "p_id departed = ''c@h:1''"
  "statusValue departed = Some ''up''"
  "statusValueSerializer departed = Some example_serializer"
  by (simp_all add: departed_eq joined_fields)

subsection \<open>The loop over the directory records\<close>

text \<open>The loop of \<^verbatim>\<open>notifyStatuses\<close> changes no field of the provider but \<open>knownKinds\<close>.\<close>

lemma notifyStatuses_range_world:
  "notifyStatuses_range c i vs res w = (r, res1, w1) \<Longrightarrow> w1 = w\<lparr>knownKinds := knownKinds w1\<rparr>"
proof (induction vs arbitrary: i res w)
  case Nil
  then show ?case by simp
next
  case (Cons v vs)
  show ?case
  proof (cases "statusValueSerializer w")
    case None
    with Cons.prems show ?thesis by simp
  next
    case (Some sz)
    let ?ms = "memberStatus c sz (clusterName w) v"
    let ?w = "if MemberID ?ms = p_id w then w\<lparr>knownKinds := svc_Tags (Service v)\<rparr> else w"
    from Cons.prems Some
    have "notifyStatuses_range c (Suc i) vs (res[i := Some ?ms]) ?w = (r, res1, w1)"
      by (simp add: Let_def)
    from Cons.IH [OF this] show ?thesis
      by (cases "MemberID ?ms = p_id w") simp_all
  qed
qed

text \<open>
  With a serializer the loop does not panic, and it fills the slots \<open>i\<close>, \<open>i + 1\<close>, ...
  of the slice with the members of the records, in their order.
\<close>

lemma notifyStatuses_range_result:
  assumes "statusValueSerializer w = Some sz" and "i + length vs \<le> length res"
  shows "fst (notifyStatuses_range c i vs res w) = Return () \<and>
         fst (snd (notifyStatuses_range c i vs res w)) =
           take i res @ map (\<lambda>v. Some (memberStatus c sz (clusterName w) v)) vs
             @ drop (i + length vs) res"
  using assms
proof (induction vs arbitrary: i res w)
  case Nil
  then show ?case by simp
next
  case (Cons v vs)
  let ?ms = "memberStatus c sz (clusterName w) v"
  let ?w = "if MemberID ?ms = p_id w then w\<lparr>knownKinds := svc_Tags (Service v)\<rparr> else w"
  have ser: "statusValueSerializer ?w = Some sz" and cn: "clusterName ?w = clusterName w"
    using Cons.prems(1) by simp_all
  have len: "Suc i + length vs \<le> length (res[i := Some ?ms])"
    using Cons.prems(2) by simp
  have step: "notifyStatuses_range c i (v # vs) res w =
              notifyStatuses_range c (Suc i) vs (res[i := Some ?ms]) ?w"
    using Cons.prems(1) by (simp add: Let_def)
  have i: "i < length res"
    using Cons.prems(2) by simp
  have "take (Suc i) (res[i := Some ?ms]) = take i res @ [Some ?ms]"
    using i by (simp add: take_Suc_conv_app_nth)
  moreover have "drop (Suc i + length vs) (res[i := Some ?ms]) = drop (i + length (v # vs)) res"
    by simp
  ultimately show ?case
    using Cons.IH [OF ser len] by (simp only: step cn) simp
qed

text \<open>What \<^verbatim>\<open>notifyStatuses\<close> does with an answer of the directory.\<close>

lemma notifyStatuses_answer:
  assumes q: "Health_Service c (trace w) (clusterName w) [] False
                \<lparr>WaitIndex = index w, WaitTime = blockingWaitTime w\<rparr> = Inr (statuses, meta)"
    and sz: "statusValueSerializer w = Some sz"
    and cl: "cluster w = Some cl"
  shows "fst (notifyStatuses c w) = Return ()"
    and "new_events w (snd (notifyStatuses c w)) =
           [Call_HealthService (clusterName w) [] False
              \<lparr>WaitIndex = index w, WaitTime = blockingWaitTime w\<rparr>,
            Publish cl (map (\<lambda>v. Some (memberStatus c sz (clusterName w) v)) statuses)]"
    and "index (snd (notifyStatuses c w)) = LastIndex meta"
proof -
  let ?opts = "\<lparr>WaitIndex = index w, WaitTime = blockingWaitTime w\<rparr>"
  let ?w2 = "(emit w (Call_HealthService (clusterName w) [] False ?opts))\<lparr>index := LastIndex meta\<rparr>"
  let ?res = "replicate (length statuses) (None :: 'a member_status option)"
  obtain r res1 w3 where run: "notifyStatuses_range c 0 statuses ?res ?w2 = (r, res1, w3)"
    by (cases "notifyStatuses_range c 0 statuses ?res ?w2") auto
  have sz2: "statusValueSerializer ?w2 = Some sz"
    using sz by (simp add: emit_def)
  have "0 + length statuses \<le> length ?res"
    by simp
  from notifyStatuses_range_result [OF sz2 this, of c] run
  have r: "r = Return ()"
    and res1: "res1 = map (\<lambda>v. Some (memberStatus c sz (clusterName w) v)) statuses"
    by (simp_all add: emit_def)
  from notifyStatuses_range_world [OF run]
  have w3: "w3 = ?w2\<lparr>knownKinds := knownKinds w3\<rparr>" .
  have cl3: "cluster w3 = Some cl"
    by (subst w3) (simp add: emit_def cl)
  have tr3: "trace w3 = trace w @ [Call_HealthService (clusterName w) [] False ?opts]"
    by (subst w3) (simp add: emit_def)
  have ix3: "index w3 = LastIndex meta"
    by (subst w3) (simp add: emit_def)
  have eq: "notifyStatuses c w = (Return (), emit w3 (Publish cl res1))"
    using q run r cl3 by (simp add: notifyStatuses_def Let_def)
  show "fst (notifyStatuses c w) = Return ()"
    by (simp add: eq)
  show "new_events w (snd (notifyStatuses c w)) =
           [Call_HealthService (clusterName w) [] False ?opts,
            Publish cl (map (\<lambda>v. Some (memberStatus c sz (clusterName w) v)) statuses)]"
    by (simp add: eq new_events_def emit_def tr3 res1)
  show "index (snd (notifyStatuses c w)) = LastIndex meta"
    by (simp add: eq emit_def ix3)
qed

text \<open>
  Every publication of \<^verbatim>\<open>notifyStatuses\<close> comes from an answer of the directory, and its
  slots are the members of the records of that answer.
\<close>

lemma notifyStatuses_Publish:
  assumes pub: "Publish cl res \<in> set (new_events w (snd (notifyStatuses c w)))"
  shows "\<exists>statuses meta.
           Health_Service c (trace w) (clusterName w) [] False
             \<lparr>WaitIndex = index w, WaitTime = blockingWaitTime w\<rparr> = Inr (statuses, meta)
           \<and> new_events w (snd (notifyStatuses c w)) =
               [Call_HealthService (clusterName w) [] False
                  \<lparr>WaitIndex = index w, WaitTime = blockingWaitTime w\<rparr>,
                Publish cl res]
           \<and> length res = length statuses
           \<and> (\<forall>i<length statuses. \<exists>sz. statusValueSerializer w = Some sz
                  \<and> res ! i = Some (memberStatus c sz (clusterName w) (statuses ! i)))"
proof -
  let ?opts = "\<lparr>WaitIndex = index w, WaitTime = blockingWaitTime w\<rparr>"
  let ?q = "Health_Service c (trace w) (clusterName w) [] False ?opts"
  show ?thesis
  proof (cases ?q)
    case (Inl err)
    then have "new_events w (snd (notifyStatuses c w)) =
                 [Call_HealthService (clusterName w) [] False ?opts, Log (''Error '' @ Error err)]"
      by (simp add: notifyStatuses_def new_events_def emit_def Let_def)
    with pub show ?thesis by simp
  next
    case (Inr a)
    obtain statuses meta where a: "a = (statuses, meta)"
      by (cases a) auto
    note q = Inr [unfolded a]
    let ?w2 = "(emit w (Call_HealthService (clusterName w) [] False ?opts))\<lparr>index := LastIndex meta\<rparr>"
    show ?thesis
    proof (cases "statusValueSerializer w")
      case (Some sz)
      show ?thesis
      proof (cases "cluster w")
        case None
        obtain r res1 w3 where run:
          "notifyStatuses_range c 0 statuses (replicate (length statuses) None) ?w2 = (r, res1, w3)"
          by (cases "notifyStatuses_range c 0 statuses (replicate (length statuses) None) ?w2") auto
        from notifyStatuses_range_world [OF run]
        have w3: "w3 = ?w2\<lparr>knownKinds := knownKinds w3\<rparr>" .
        have "cluster w3 = None"
          by (subst w3) (simp add: emit_def None)
        moreover have "trace w3 = trace w @ [Call_HealthService (clusterName w) [] False ?opts]"
          by (subst w3) (simp add: emit_def)
        ultimately have "new_events w (snd (notifyStatuses c w)) =
                 [Call_HealthService (clusterName w) [] False ?opts]"
          using q run by (cases r) (simp_all add: notifyStatuses_def new_events_def Let_def)
        with pub show ?thesis by simp
      next
        case (Some cl1)
        note ans = notifyStatuses_answer [OF q \<open>statusValueSerializer w = Some sz\<close> Some]
        from pub ans(2)
        have "cl = cl1" and "res = map (\<lambda>v. Some (memberStatus c sz (clusterName w) v)) statuses"
          by simp_all
        with ans(2) q \<open>statusValueSerializer w = Some sz\<close> show ?thesis
          by simp
      qed
    next
      case None
      have sz2: "statusValueSerializer ?w2 = None"
        using None by (simp add: emit_def)
      show ?thesis
      proof (cases statuses)
        case Nil
        show ?thesis
        proof (cases "cluster w")
          case None
          then have "new_events w (snd (notifyStatuses c w)) =
                 [Call_HealthService (clusterName w) [] False ?opts]"
            using q Nil by (simp add: notifyStatuses_def new_events_def emit_def Let_def)
          with pub show ?thesis by simp
        next
          case (Some cl1)
          then have "new_events w (snd (notifyStatuses c w)) =
                 [Call_HealthService (clusterName w) [] False ?opts, Publish cl1 []]"
            using q Nil by (simp add: notifyStatuses_def new_events_def emit_def Let_def)
          with pub q Nil show ?thesis by simp
        qed
      next
        case (Cons v vs)
        then have "new_events w (snd (notifyStatuses c w)) =
                 [Call_HealthService (clusterName w) [] False ?opts]"
          using q sz2 by (simp add: notifyStatuses_def new_events_def emit_def Let_def)
        with pub show ?thesis by simp
      qed
    qed
  qed
qed

text \<open>The second watch of the example: the directory now lists two instances.\<close>

lemma second_watch:
  "Health_Service consul_up (trace joined) (clusterName joined) [] False
     \<lparr>WaitIndex = index joined, WaitTime = blockingWaitTime joined\<rparr> =
   Inr ([example_entry [''A''] [ttl_check ''passing''],
         (example_entry [''B''] [])\<lparr>Service := (Service (example_entry [''B''] []))
            \<lparr>svc_ID := ''c@h:2'', svc_Port := 2\<rparr>\<rparr>],
        \<lparr>LastIndex = 2\<rparr>)"
  by (simp add: consul_up_def joined_fields)

lemma second_watch_events:
  "new_events joined (snd (notifyStatuses consul_up joined)) =
     [Call_HealthService ''c'' [] False \<lparr>WaitIndex = 1, WaitTime = 20000000000\<rparr>,
      Publish 0
        [Some \<lparr>MemberID = ''c/h:1'', Host = ''h'', Port = 1, Kinds = [''A''], Alive = True,
               StatusValue = Some ''up''\<rparr>,
         Some \<lparr>MemberID = ''c/h:2'', Host = ''h'', Port = 2, Kinds = [''B''], Alive = False,
               StatusValue = Some ''up''\<rparr>]]"
  by (simp add: joined_eq provider_defs example_defs)

subsection \<open>The watch: a failed query\<close>

text \<open>
  Claim C7. When the blocking health query fails, \<^verbatim>\<open>notifyStatuses\<close> returns after the
  query and one log line: the field \<open>index\<close> keeps its value, nothing is published, and
  the function returns normally (it has no error result that could reach a caller). The
  loop of \<^verbatim>\<open>MonitorMemberStatusChanges\<close> then goes on with its next pass.
\<close>

theorem notifyStatuses_query_error:
  assumes "Health_Service c (trace w) (clusterName w) [] False
             \<lparr>WaitIndex = index w, WaitTime = blockingWaitTime w\<rparr> = Inl err"
  shows "notifyStatuses c w =
           (Return (),
            w\<lparr>trace := trace w @
                 [Call_HealthService (clusterName w) [] False
                    \<lparr>WaitIndex = index w, WaitTime = blockingWaitTime w\<rparr>,
                  Log (''Error '' @ Error err)]\<rparr>)
         \<and> index (snd (notifyStatuses c w)) = index w
         \<and> (\<forall>cl res. Publish cl res \<notin> set (new_events w (snd (notifyStatuses c w))))
         \<and> (\<not> shutdown w \<longrightarrow>
              MonitorMemberStatusChanges_loop (Suc n) c w =
              MonitorMemberStatusChanges_loop n c (snd (notifyStatuses c w)))"
proof -
  have eq: "notifyStatuses c w =
           (Return (),
            w\<lparr>trace := trace w @
                 [Call_HealthService (clusterName w) [] False
                    \<lparr>WaitIndex = index w, WaitTime = blockingWaitTime w\<rparr>,
                  Log (''Error '' @ Error err)]\<rparr>)"
    using assms by (simp add: notifyStatuses_def emit_def Let_def)
  show ?thesis
    unfolding eq by (simp add: new_events_def eq)
qed

theorem notifyStatuses_query_error_witness:
  "Health_Service consul_down (trace joined) (clusterName joined) [] False
     \<lparr>WaitIndex = index joined, WaitTime = blockingWaitTime joined\<rparr>
     = Inl (ClientError ''connection refused'')
   \<and> \<not> shutdown joined
   \<and> new_events joined (snd (notifyStatuses consul_down joined)) =
       [Call_HealthService ''c'' [] False \<lparr>WaitIndex = 1, WaitTime = 20000000000\<rparr>,
        Log ''Error connection refused'']
   \<and> index (snd (notifyStatuses consul_down joined)) = 1
   \<and> MonitorMemberStatusChanges_loop (Suc 1) consul_down joined =
       MonitorMemberStatusChanges_loop 1 consul_down (snd (notifyStatuses consul_down joined))"
proof -
  have h: "Health_Service consul_down (trace joined) (clusterName joined) [] False
             \<lparr>WaitIndex = index joined, WaitTime = blockingWaitTime joined\<rparr>
             = Inl (ClientError ''connection refused'')"
    by (simp add: example_defs)
  have ns: "\<not> shutdown joined"
    by (simp add: joined_eq)
  show ?thesis
    using h ns notifyStatuses_query_error [OF h, where n = 1]
    by (simp add: new_events_def joined_eq)
qed

subsection \<open>Updating the status value\<close>

text \<open>
  Claim C4. \<^verbatim>\<open>UpdateMemberStatusValue\<close> with a nil status returns nil and makes no
  directory call. With a status that is not nil and the shutdown flag set, it returns
  \<^verbatim>\<open>ProviderShuttingDownError\<close> and makes no directory call. With a status that is not nil
  and the flag not set, it is \<^verbatim>\<open>registerService\<close> on the provider with the new status:
  for a provider that has its serializer (\<^verbatim>\<open>RegisterMember\<close> sets it), the one effect is
  a call of \<^verbatim>\<open>ServiceRegister\<close> with the whole registration (identity, name, kinds,
  address, port, the serialized new status and the check), and the result is the result of
  that call.
\<close>

theorem UpdateMemberStatusValue_cases:
  "fst (UpdateMemberStatusValue c None w) = Return None
   \<and> new_events w (snd (UpdateMemberStatusValue c None w)) = []
   \<and> (shutdown w \<longrightarrow>
        fst (UpdateMemberStatusValue c (Some v) w) = Return (Some ProviderShuttingDownError)
        \<and> new_events w (snd (UpdateMemberStatusValue c (Some v) w)) = [])
   \<and> (\<not> shutdown w \<longrightarrow>
        UpdateMemberStatusValue c (Some v) w = registerService c (w\<lparr>statusValue := Some v\<rparr>))
   \<and> (\<not> shutdown w \<and> statusValueSerializer w = Some sz \<longrightarrow>
        fst (UpdateMemberStatusValue c (Some v) w) =
          Return (Agent_ServiceRegister c (trace w)
            \<lparr>reg_ID = p_id w, reg_Name = clusterName w, reg_Tags = knownKinds w,
             reg_Address = address w, reg_Port = port w,
             reg_Meta = [(''StatusValue'', Serialize sz (Some v))],
             reg_Check = \<lparr>DeregisterCriticalServiceAfter = Duration_String c (deregisterCritical w),
                          TTL = Duration_String c (ttl w)\<rparr>\<rparr>)
        \<and> new_events w (snd (UpdateMemberStatusValue c (Some v) w)) =
          [Call_ServiceRegister
            \<lparr>reg_ID = p_id w, reg_Name = clusterName w, reg_Tags = knownKinds w,
             reg_Address = address w, reg_Port = port w,
             reg_Meta = [(''StatusValue'', Serialize sz (Some v))],
             reg_Check = \<lparr>DeregisterCriticalServiceAfter = Duration_String c (deregisterCritical w),
                          TTL = Duration_String c (ttl w)\<rparr>\<rparr>])"
  by (simp add: UpdateMemberStatusValue_def registerService_def registration_def emit_def
      new_events_def Let_def)

theorem UpdateMemberStatusValue_cases_witness:
  "shutdown departed
   \<and> fst (UpdateMemberStatusValue consul_up (Some ''busy'') departed)
       = Return (Some ProviderShuttingDownError)
   \<and> new_events departed (snd (UpdateMemberStatusValue consul_up (Some ''busy'') departed)) = []
   \<and> \<not> shutdown joined
   \<and> statusValueSerializer joined = Some example_serializer
   \<and> fst (UpdateMemberStatusValue consul_down (Some ''busy'') joined)
       = Return (Some (ClientError ''connection refused''))
   \<and> new_events joined (snd (UpdateMemberStatusValue consul_down (Some ''busy'') joined)) =
       [Call_ServiceRegister
          \<lparr>reg_ID = ''c@h:1'', reg_Name = ''c'', reg_Tags = [''A'', ''B''], reg_Address = ''h'',
           reg_Port = 1, reg_Meta = [(''StatusValue'', ''busy'')],
           reg_Check = \<lparr>DeregisterCriticalServiceAfter = ''1m0s'', TTL = ''3s''\<rparr>\<rparr>]"
proof -
  note a = UpdateMemberStatusValue_cases [of consul_up departed "''busy''" example_serializer]
  note b = UpdateMemberStatusValue_cases [of consul_down joined "''busy''" example_serializer]
  have pre: "\<not> shutdown joined \<and> statusValueSerializer joined = Some example_serializer"
    by (simp add: joined_fields)
  have 1: "fst (UpdateMemberStatusValue consul_up (Some ''busy'') departed)
             = Return (Some ProviderShuttingDownError)
           \<and> new_events departed (snd (UpdateMemberStatusValue consul_up (Some ''busy'') departed)) = []"
    using a departed_fields(1) by blast
  note b5 = b [THEN conjunct2, THEN conjunct2, THEN conjunct2, THEN conjunct2, rule_format, OF pre]
  have 2: "fst (UpdateMemberStatusValue consul_down (Some ''busy'') joined)
             = Return (Some (ClientError ''connection refused''))"
    using b5 [THEN conjunct1] by (simp add: consul_down_calls)
  have 3: "new_events joined (snd (UpdateMemberStatusValue consul_down (Some ''busy'') joined)) =
       [Call_ServiceRegister
          \<lparr>reg_ID = ''c@h:1'', reg_Name = ''c'', reg_Tags = [''A'', ''B''], reg_Address = ''h'',
           reg_Port = 1, reg_Meta = [(''StatusValue'', ''busy'')],
           reg_Check = \<lparr>DeregisterCriticalServiceAfter = ''1m0s'', TTL = ''3s''\<rparr>\<rparr>]"
    using b5 [THEN conjunct2]
    by (simp add: joined_fields Duration_String_examples example_serializer_def)
  show ?thesis
    using pre 1 2 3 departed_fields(1) by blast
qed

text \<open>
  Claim C10. When \<^verbatim>\<open>UpdateMemberStatusValue\<close> is over, the field \<open>statusValue\<close> is the
  argument, whatever the result: the assignment comes before the two checks. So the call
  with nil leaves nil in the field, the call refused with \<^verbatim>\<open>ProviderShuttingDownError\<close>
  leaves its argument there, and after a call with nil the next registration serializes
  nil.
\<close>

theorem UpdateMemberStatusValue_stores_argument:
  "statusValue (snd (UpdateMemberStatusValue c sv w)) = sv
   \<and> UpdateMemberStatusValue c None w = (Return None, w\<lparr>statusValue := None\<rparr>)
   \<and> (shutdown w \<longrightarrow>
        UpdateMemberStatusValue c (Some v) w =
          (Return (Some ProviderShuttingDownError), w\<lparr>statusValue := Some v\<rparr>))
   \<and> (statusValueSerializer w = Some sz \<longrightarrow>
        new_events w (snd (registerService c (snd (UpdateMemberStatusValue c None w)))) =
          [Call_ServiceRegister
             ((registration c sz w)\<lparr>reg_Meta := [(''StatusValue'', Serialize sz None)]\<rparr>)])"
  by (simp add: UpdateMemberStatusValue_def registerService_def registration_def emit_def
      new_events_def Let_def split: option.split)

theorem UpdateMemberStatusValue_stores_argument_witness:
  "statusValue joined = Some ''up''
   \<and> statusValue (snd (UpdateMemberStatusValue consul_up None joined)) = None
   \<and> shutdown departed
   \<and> UpdateMemberStatusValue consul_up (Some ''busy'') departed
       = (Return (Some ProviderShuttingDownError), departed\<lparr>statusValue := Some ''busy''\<rparr>)
   \<and> statusValueSerializer joined = Some example_serializer
   \<and> new_events joined
       (snd (registerService consul_up (snd (UpdateMemberStatusValue consul_up None joined)))) =
       [Call_ServiceRegister
          \<lparr>reg_ID = ''c@h:1'', reg_Name = ''c'', reg_Tags = [''A'', ''B''], reg_Address = ''h'',
           reg_Port = 1, reg_Meta = [(''StatusValue'', [])],
           reg_Check = \<lparr>DeregisterCriticalServiceAfter = ''1m0s'', TTL = ''3s''\<rparr>\<rparr>]"
proof -
  note a = UpdateMemberStatusValue_stores_argument
             [of consul_up "Some ''busy''" departed "''busy''" example_serializer]
  note b = UpdateMemberStatusValue_stores_argument
             [of consul_up None joined "''busy''" example_serializer]
  have 1: "UpdateMemberStatusValue consul_up (Some ''busy'') departed
       = (Return (Some ProviderShuttingDownError), departed\<lparr>statusValue := Some ''busy''\<rparr>)"
    using a departed_fields(1) by blast
  have 2: "statusValue (snd (UpdateMemberStatusValue consul_up None joined)) = None"
    using b by blast
  have 3: "new_events joined
       (snd (registerService consul_up (snd (UpdateMemberStatusValue consul_up None joined)))) =
       [Call_ServiceRegister
          \<lparr>reg_ID = ''c@h:1'', reg_Name = ''c'', reg_Tags = [''A'', ''B''], reg_Address = ''h'',
           reg_Port = 1, reg_Meta = [(''StatusValue'', [])],
           reg_Check = \<lparr>DeregisterCriticalServiceAfter = ''1m0s'', TTL = ''3s''\<rparr>\<rparr>]"
    using b [THEN conjunct2, THEN conjunct2, THEN conjunct2, rule_format, OF joined_fields(11)]
    by (simp add: registration_def joined_fields Duration_String_examples example_serializer_def)
  show ?thesis
    using 1 2 3 departed_fields(1) joined_fields(10,11) by blast
qed

subsection \<open>Leaving\<close>

text \<open>
  Claim C5. \<^verbatim>\<open>Shutdown\<close> is idempotent. After a first call that returned nil the shutdown
  flag is set, and a second call, whatever the directory would answer, returns nil and
  leaves the provider and the trace as they were: no directory call, no change of state.
\<close>

theorem Shutdown_idempotent:
  assumes "fst (Shutdown c w) = None"
  shows "shutdown (snd (Shutdown c w))
         \<and> Shutdown c1 (snd (Shutdown c w)) = (None, snd (Shutdown c w))"
proof -
  have "shutdown (snd (Shutdown c w))"
    by (simp add: Shutdown_def DeregisterMember_def deregisterService_def emit_def Let_def
        split: option.split)
  then show ?thesis by (simp add: Shutdown_def)
qed

theorem Shutdown_idempotent_witness:
  "fst (Shutdown consul_up joined) = None
   \<and> new_events joined (snd (Shutdown consul_up joined)) =
       [WaitGroup_Wait, Call_ServiceDeregister ''c@h:1'']
   \<and> shutdown (snd (Shutdown consul_up joined))
   \<and> Shutdown consul_down (snd (Shutdown consul_up joined)) =
       (None, snd (Shutdown consul_up joined))"
proof -
  have h: "fst (Shutdown consul_up joined) = None"
    by (simp add: Shutdown_def DeregisterMember_def deregisterService_def emit_def Let_def
        joined_fields consul_up_calls)
  have ev: "new_events joined (snd (Shutdown consul_up joined)) =
              [WaitGroup_Wait, Call_ServiceDeregister ''c@h:1'']"
    using departed_eq by (simp add: departed_def new_events_def)
  show ?thesis
    using h ev Shutdown_idempotent [OF h, of consul_down] by blast
qed

subsection \<open>Joining\<close>

text \<open>
  Claim C9. If the directory refuses the registration that \<^verbatim>\<open>RegisterMember\<close> submits,
  \<^verbatim>\<open>RegisterMember\<close> returns that error, and the call of \<^verbatim>\<open>ServiceRegister\<close> is its only
  effect: no renewal of the TTL, no health query, no publication, no heartbeat goroutine.
\<close>

theorem RegisterMember_registration_fails:
  assumes "Agent_ServiceRegister c (trace w)
             \<lparr>reg_ID = cname @ ''@'' @ addr @ '':'' @ fmt_int prt, reg_Name = cname,
              reg_Tags = kinds, reg_Address = addr, reg_Port = prt,
              reg_Meta = [(''StatusValue'', Serialize sz sv)],
              reg_Check = \<lparr>DeregisterCriticalServiceAfter = Duration_String c (deregisterCritical w),
                           TTL = Duration_String c (ttl w)\<rparr>\<rparr> = Some err"
  shows "fst (RegisterMember c cl cname addr prt kinds sv (Some sz) w) = Return (Some err)
         \<and> new_events w (snd (RegisterMember c cl cname addr prt kinds sv (Some sz) w)) =
           [Call_ServiceRegister
              \<lparr>reg_ID = cname @ ''@'' @ addr @ '':'' @ fmt_int prt, reg_Name = cname,
               reg_Tags = kinds, reg_Address = addr, reg_Port = prt,
               reg_Meta = [(''StatusValue'', Serialize sz sv)],
               reg_Check = \<lparr>DeregisterCriticalServiceAfter = Duration_String c (deregisterCritical w),
                            TTL = Duration_String c (ttl w)\<rparr>\<rparr>]"
  using assms
  by (simp add: RegisterMember_def registerService_def registration_def emit_def
      new_events_def Let_def)

theorem RegisterMember_registration_fails_witness:
  "fst (RegisterMember consul_down (Some 0) ''c'' ''h'' 1 [''A'', ''B''] (Some ''up'')
          (Some example_serializer) newProvider) = Return (Some (ClientError ''connection refused''))
   \<and> trace (snd (RegisterMember consul_down (Some 0) ''c'' ''h'' 1 [''A'', ''B''] (Some ''up'')
          (Some example_serializer) newProvider)) =
       [Call_ServiceRegister
          \<lparr>reg_ID = ''c@h:1'', reg_Name = ''c'', reg_Tags = [''A'', ''B''], reg_Address = ''h'',
           reg_Port = 1, reg_Meta = [(''StatusValue'', ''up'')],
           reg_Check = \<lparr>DeregisterCriticalServiceAfter = ''1m0s'', TTL = ''3s''\<rparr>\<rparr>]"
proof -
  have h: "Agent_ServiceRegister consul_down (trace newProvider)
             \<lparr>reg_ID = ''c'' @ ''@'' @ ''h'' @ '':'' @ fmt_int 1, reg_Name = ''c'',
              reg_Tags = [''A'', ''B''], reg_Address = ''h'', reg_Port = 1,
              reg_Meta = [(''StatusValue'', Serialize example_serializer (Some ''up''))],
              reg_Check =
                \<lparr>DeregisterCriticalServiceAfter =
                   Duration_String consul_down (deregisterCritical newProvider),
                 TTL = Duration_String consul_down (ttl newProvider)\<rparr>\<rparr>
           = Some (ClientError ''connection refused'')"
    by (simp add: consul_down_calls)
  have fields: "trace (newProvider :: string world) = []"
    "deregisterCritical (newProvider :: string world) = 60 * Second"
    "ttl (newProvider :: string world) = 3 * Second"
    by (simp_all add: newProvider_def)
  show ?thesis
    using RegisterMember_registration_fails [OF h, of "Some 0"]
    by (simp add: new_events_def fields Duration_String_examples example_serializer_def
        fmt_int_def digit_def)
qed

subsection \<open>The watch: an answer of the directory\<close>

text \<open>
  Claim C8. Every snapshot that \<^verbatim>\<open>notifyStatuses\<close> publishes comes from the one health
  query of that call: the query and the publication are the only effects of the call (one
  batch, no event per member), the snapshot has as many members as the answer has records,
  and its member number \<open>i\<close> is built from the record number \<open>i\<close> alone. Nothing of an
  earlier snapshot is in it.
\<close>

theorem notifyStatuses_snapshot_exhaustive:
  assumes "Publish cl res \<in> set (new_events w (snd (notifyStatuses c w)))"
  shows "\<exists>statuses meta.
           Health_Service c (trace w) (clusterName w) [] False
             \<lparr>WaitIndex = index w, WaitTime = blockingWaitTime w\<rparr> = Inr (statuses, meta)
           \<and> new_events w (snd (notifyStatuses c w)) =
               [Call_HealthService (clusterName w) [] False
                  \<lparr>WaitIndex = index w, WaitTime = blockingWaitTime w\<rparr>,
                Publish cl res]
           \<and> length res = length statuses
           \<and> (\<forall>i<length statuses. \<exists>sz ms.
                  statusValueSerializer w = Some sz
                  \<and> res ! i = Some ms
                  \<and> ms = memberStatus c sz (clusterName w) (statuses ! i)
                  \<and> MemberID ms = clusterName w @ ''/'' @ svc_Address (Service (statuses ! i))
                       @ '':'' @ fmt_int (svc_Port (Service (statuses ! i)))
                  \<and> Host ms = svc_Address (Service (statuses ! i))
                  \<and> Port ms = svc_Port (Service (statuses ! i))
                  \<and> Kinds ms = svc_Tags (Service (statuses ! i))
                  \<and> StatusValue ms =
                      Deserialize sz (map_get (svc_Meta (Service (statuses ! i))) ''StatusValue''))"
proof -
  from notifyStatuses_Publish [OF assms]
  obtain statuses meta where
    q: "Health_Service c (trace w) (clusterName w) [] False
          \<lparr>WaitIndex = index w, WaitTime = blockingWaitTime w\<rparr> = Inr (statuses, meta)"
    and ev: "new_events w (snd (notifyStatuses c w)) =
               [Call_HealthService (clusterName w) [] False
                  \<lparr>WaitIndex = index w, WaitTime = blockingWaitTime w\<rparr>,
                Publish cl res]"
    and len: "length res = length statuses"
    and slots: "\<forall>i<length statuses. \<exists>sz. statusValueSerializer w = Some sz
                  \<and> res ! i = Some (memberStatus c sz (clusterName w) (statuses ! i))"
    by blast
  have "\<forall>i<length statuses. \<exists>sz ms.
                  statusValueSerializer w = Some sz
                  \<and> res ! i = Some ms
                  \<and> ms = memberStatus c sz (clusterName w) (statuses ! i)
                  \<and> MemberID ms = clusterName w @ ''/'' @ svc_Address (Service (statuses ! i))
                       @ '':'' @ fmt_int (svc_Port (Service (statuses ! i)))
                  \<and> Host ms = svc_Address (Service (statuses ! i))
                  \<and> Port ms = svc_Port (Service (statuses ! i))
                  \<and> Kinds ms = svc_Tags (Service (statuses ! i))
                  \<and> StatusValue ms =
                      Deserialize sz (map_get (svc_Meta (Service (statuses ! i))) ''StatusValue'')"
  proof (intro allI impI)
    fix i assume "i < length statuses"
    with slots obtain sz where sz: "statusValueSerializer w = Some sz"
      and ri: "res ! i = Some (memberStatus c sz (clusterName w) (statuses ! i))"
      by blast
    show "\<exists>sz ms.
                  statusValueSerializer w = Some sz
                  \<and> res ! i = Some ms
                  \<and> ms = memberStatus c sz (clusterName w) (statuses ! i)
                  \<and> MemberID ms = clusterName w @ ''/'' @ svc_Address (Service (statuses ! i))
                       @ '':'' @ fmt_int (svc_Port (Service (statuses ! i)))
                  \<and> Host ms = svc_Address (Service (statuses ! i))
                  \<and> Port ms = svc_Port (Service (statuses ! i))
                  \<and> Kinds ms = svc_Tags (Service (statuses ! i))
                  \<and> StatusValue ms =
                      Deserialize sz (map_get (svc_Meta (Service (statuses ! i))) ''StatusValue'')"
      using sz ri by (simp add: memberStatus_def Let_def)
  qed
  with q ev len show ?thesis by blast
qed

theorem notifyStatuses_snapshot_exhaustive_witness:
  "Publish 0
     [Some \<lparr>MemberID = ''c/h:1'', Host = ''h'', Port = 1, Kinds = [''A''], Alive = True,
            StatusValue = Some ''up''\<rparr>,
      Some \<lparr>MemberID = ''c/h:2'', Host = ''h'', Port = 2, Kinds = [''B''], Alive = False,
            StatusValue = Some ''up''\<rparr>]
     \<in> set (new_events joined (snd (notifyStatuses consul_up joined)))
   \<and> (\<exists>statuses meta.
         Health_Service consul_up (trace joined) (clusterName joined) [] False
           \<lparr>WaitIndex = index joined, WaitTime = blockingWaitTime joined\<rparr> = Inr (statuses, meta)
         \<and> length statuses = 2
         \<and> length (new_events joined (snd (notifyStatuses consul_up joined))) = 2)"
proof -
  let ?res = "[Some \<lparr>MemberID = ''c/h:1'', Host = ''h'', Port = 1, Kinds = [''A''], Alive = True,
            StatusValue = Some ''up''\<rparr>,
      Some \<lparr>MemberID = ''c/h:2'', Host = ''h'', Port = 2, Kinds = [''B''], Alive = False,
            StatusValue = Some ''up''\<rparr>]"
  have h: "Publish 0 ?res \<in> set (new_events joined (snd (notifyStatuses consul_up joined)))"
    by (simp add: second_watch_events)
  from notifyStatuses_snapshot_exhaustive [OF h]
  obtain statuses meta where
    "Health_Service consul_up (trace joined) (clusterName joined) [] False
           \<lparr>WaitIndex = index joined, WaitTime = blockingWaitTime joined\<rparr> = Inr (statuses, meta)"
    and "new_events joined (snd (notifyStatuses consul_up joined)) =
               [Call_HealthService (clusterName joined) [] False
                  \<lparr>WaitIndex = index joined, WaitTime = blockingWaitTime joined\<rparr>,
                Publish 0 ?res]"
    and "length ?res = length statuses"
    by blast
  then show ?thesis
    using h by auto
qed

text \<open>
  Claim C3. When the directory answers the watch of a provider that has its serializer
  and its cluster, \<^verbatim>\<open>notifyStatuses\<close> publishes one snapshot with one member for every
  record of the answer, and the field \<open>Alive\<close> of the member of a record is true if and
  only if the record has at least one health check and \<^verbatim>\<open>AggregatedStatus\<close> of its
  checks is \<^verbatim>\<open>passing\<close>; for a record with no check it is false.
\<close>

theorem notifyStatuses_Alive:
  assumes "Health_Service c (trace w) (clusterName w) [] False
             \<lparr>WaitIndex = index w, WaitTime = blockingWaitTime w\<rparr> = Inr (statuses, meta)"
    and "statusValueSerializer w = Some sz"
    and "cluster w = Some cl"
  shows "\<exists>res.
           fst (notifyStatuses c w) = Return ()
           \<and> new_events w (snd (notifyStatuses c w)) =
               [Call_HealthService (clusterName w) [] False
                  \<lparr>WaitIndex = index w, WaitTime = blockingWaitTime w\<rparr>,
                Publish cl res]
           \<and> length res = length statuses
           \<and> (\<forall>i<length statuses. \<exists>ms.
                  res ! i = Some ms
                  \<and> (Alive ms \<longleftrightarrow>
                       0 < length (Checks (statuses ! i))
                       \<and> AggregatedStatus c (Checks (statuses ! i)) = ''passing'')
                  \<and> (Checks (statuses ! i) = [] \<longrightarrow> \<not> Alive ms))"
proof -
  let ?res = "map (\<lambda>v. Some (memberStatus c sz (clusterName w) v)) statuses"
  note ans = notifyStatuses_answer [OF assms]
  have slots: "\<forall>i<length statuses. \<exists>ms.
                  ?res ! i = Some ms
                  \<and> (Alive ms \<longleftrightarrow>
                       0 < length (Checks (statuses ! i))
                       \<and> AggregatedStatus c (Checks (statuses ! i)) = ''passing'')
                  \<and> (Checks (statuses ! i) = [] \<longrightarrow> \<not> Alive ms)"
    by (simp add: memberStatus_def HealthPassing_def Let_def)
  have "length ?res = length statuses"
    by simp
  with ans(1,2) slots show ?thesis
    by blast
qed

theorem notifyStatuses_Alive_witness:
  "\<exists>res.
     fst (notifyStatuses consul_up joined) = Return ()
     \<and> new_events joined (snd (notifyStatuses consul_up joined)) =
         [Call_HealthService (clusterName joined) [] False
            \<lparr>WaitIndex = index joined, WaitTime = blockingWaitTime joined\<rparr>,
          Publish 0 res]
     \<and> length res = 2
     \<and> (\<exists>ms. res ! 0 = Some ms \<and> Alive ms)
     \<and> (\<exists>ms. res ! 1 = Some ms \<and> \<not> Alive ms)"
proof -
  let ?e0 = "example_entry [''A''] [ttl_check ''passing'']"
  let ?e1 = "(example_entry [''B''] [])\<lparr>Service := (Service (example_entry [''B''] []))
                        \<lparr>svc_ID := ''c@h:2'', svc_Port := 2\<rparr>\<rparr>"
  have c0: "0 < length (Checks ([?e0, ?e1] ! 0))
            \<and> AggregatedStatus consul_up (Checks ([?e0, ?e1] ! 0)) = ''passing''"
    and c1: "Checks ([?e0, ?e1] ! 1) = []"
    by (simp_all add: example_entry_def ttl_check_def consul_up_def)
  from notifyStatuses_Alive [OF second_watch joined_fields(11) joined_fields(9)]
  obtain res where
    ret: "fst (notifyStatuses consul_up joined) = Return ()"
    and ev: "new_events joined (snd (notifyStatuses consul_up joined)) =
         [Call_HealthService (clusterName joined) [] False
            \<lparr>WaitIndex = index joined, WaitTime = blockingWaitTime joined\<rparr>,
          Publish 0 res]"
    and len: "length res = length [?e0, ?e1]"
    and slots: "\<forall>i<length [?e0, ?e1]. \<exists>ms.
                  res ! i = Some ms
                  \<and> (Alive ms \<longleftrightarrow>
                       0 < length (Checks ([?e0, ?e1] ! i))
                       \<and> AggregatedStatus consul_up (Checks ([?e0, ?e1] ! i)) = ''passing'')
                  \<and> (Checks ([?e0, ?e1] ! i) = [] \<longrightarrow> \<not> Alive ms)"
    by blast
  have "0 < length [?e0, ?e1]"
    by simp
  with slots c0 obtain ms0 where 0: "res ! 0 = Some ms0 \<and> Alive ms0"
    by blast
  have "1 < length [?e0, ?e1]"
    by simp
  with slots c1 obtain ms1 where 1: "res ! 1 = Some ms1 \<and> \<not> Alive ms1"
    by blast
  have "length res = 2"
    using len by simp
  with ret ev 0 1 show ?thesis
    by blast
qed

subsection \<open>The heartbeat: a failed renewal\<close>

lemma range_services_iff: "range_services ids pid \<longleftrightarrow> pid \<in> set ids"
  by (induction ids) auto

text \<open>
  Claim C2. In a pass of the heartbeat loop in which the renewal of the TTL fails, the
  provider asks the directory for its services. If the identity of this instance is among
  them, the pass ends with a log line and the sleep, and calls \<^verbatim>\<open>ServiceRegister\<close> not
  at all. If it is not, the pass calls \<^verbatim>\<open>ServiceRegister\<close> once, then logs the outcome
  and sleeps, whether the directory accepted the registration or not. Either way the pass
  returns and the loop goes on. The provider has its serializer, as it does after
  \<^verbatim>\<open>RegisterMember\<close>, which is what starts the loop.
\<close>

theorem UpdateTTL_body_renewal_fails:
  assumes "Agent_UpdateTTL c (trace w) (''service:'' @ p_id w) [] HealthPassing = Some err"
    and "statusValueSerializer w = Some sz"
    and "Agent_Services c
           (trace w @ [Call_UpdateTTL (''service:'' @ p_id w) [] HealthPassing, Log log_ttl_failure])
         = (services, err1)"
  shows "fst (UpdateTTL_body c w) = Return ()
         \<and> (p_id w \<in> fst ` set services \<longrightarrow>
              new_events w (snd (UpdateTTL_body c w)) =
                [Call_UpdateTTL (''service:'' @ p_id w) [] HealthPassing, Log log_ttl_failure,
                 Call_Services, Log log_service_found, Sleep (refreshTTL w)])
         \<and> (p_id w \<notin> fst ` set services \<longrightarrow>
              new_events w (snd (UpdateTTL_body c w)) =
                [Call_UpdateTTL (''service:'' @ p_id w) [] HealthPassing, Log log_ttl_failure,
                 Call_Services, Call_ServiceRegister (registration c sz w),
                 Log (case Agent_ServiceRegister c
                             (trace w @ [Call_UpdateTTL (''service:'' @ p_id w) [] HealthPassing,
                                         Log log_ttl_failure, Call_Services])
                             (registration c sz w) of
                        None \<Rightarrow> log_reregistered
                      | Some err2 \<Rightarrow> log_reregister_error err2),
                 Sleep (refreshTTL w)])
         \<and> (\<not> shutdown w \<longrightarrow>
              UpdateTTL_loop (Suc n) c w = UpdateTTL_loop n c (snd (UpdateTTL_body c w)))"
proof -
  let ?tr3 = "trace w @ [Call_UpdateTTL (''service:'' @ p_id w) [] HealthPassing,
                         Log log_ttl_failure, Call_Services]"
  have ret: "fst (UpdateTTL_body c w) = Return ()"
    using assms
    by (cases "Agent_ServiceRegister c ?tr3 (registration c sz w)")
       (simp_all add: UpdateTTL_body_def blockingUpdateTTL_def registerService_def
          registration_def emit_def Let_def)
  have found: "new_events w (snd (UpdateTTL_body c w)) =
                [Call_UpdateTTL (''service:'' @ p_id w) [] HealthPassing, Log log_ttl_failure,
                 Call_Services, Log log_service_found, Sleep (refreshTTL w)]"
    if "p_id w \<in> fst ` set services"
    using assms that
    by (simp add: UpdateTTL_body_def blockingUpdateTTL_def emit_def Let_def new_events_def
        range_services_iff)
  have absent: "new_events w (snd (UpdateTTL_body c w)) =
                [Call_UpdateTTL (''service:'' @ p_id w) [] HealthPassing, Log log_ttl_failure,
                 Call_Services, Call_ServiceRegister (registration c sz w),
                 Log (case Agent_ServiceRegister c ?tr3 (registration c sz w) of
                        None \<Rightarrow> log_reregistered
                      | Some err2 \<Rightarrow> log_reregister_error err2),
                 Sleep (refreshTTL w)]"
    if "p_id w \<notin> fst ` set services"
    using assms that
    by (cases "Agent_ServiceRegister c ?tr3 (registration c sz w)")
       (simp_all add: UpdateTTL_body_def blockingUpdateTTL_def registerService_def
          registration_def emit_def Let_def new_events_def range_services_iff)
  have loop: "UpdateTTL_loop (Suc n) c w = UpdateTTL_loop n c (snd (UpdateTTL_body c w))"
    if "\<not> shutdown w"
    using that ret by (cases "UpdateTTL_body c w") simp
  show ?thesis
    using ret found absent loop by blast
qed

theorem UpdateTTL_body_renewal_fails_witness:
  "new_events joined (snd (UpdateTTL_body consul_ttl_lost joined)) =
     [Call_UpdateTTL ''service:c@h:1'' [] ''passing'', Log log_ttl_failure, Call_Services,
      Log log_service_found, Sleep 1000000000]
   \<and> new_events joined (snd (UpdateTTL_body consul_evicted joined)) =
     [Call_UpdateTTL ''service:c@h:1'' [] ''passing'', Log log_ttl_failure, Call_Services,
      Call_ServiceRegister
        \<lparr>reg_ID = ''c@h:1'', reg_Name = ''c'', reg_Tags = [''A'', ''B''], reg_Address = ''h'',
         reg_Port = 1, reg_Meta = [(''StatusValue'', ''up'')],
         reg_Check = \<lparr>DeregisterCriticalServiceAfter = ''1m0s'', TTL = ''3s''\<rparr>\<rparr>,
      Log log_reregistered, Sleep 1000000000]
   \<and> new_events joined (snd (UpdateTTL_body consul_down joined)) =
     [Call_UpdateTTL ''service:c@h:1'' [] ''passing'', Log log_ttl_failure, Call_Services,
      Call_ServiceRegister
        \<lparr>reg_ID = ''c@h:1'', reg_Name = ''c'', reg_Tags = [''A'', ''B''], reg_Address = ''h'',
         reg_Port = 1, reg_Meta = [(''StatusValue'', ''up'')],
         reg_Check = \<lparr>DeregisterCriticalServiceAfter = ''1m0s'', TTL = ''3s''\<rparr>\<rparr>,
      Log (log_reregister_error (ClientError ''connection refused'')), Sleep 1000000000]
   \<and> \<not> shutdown joined
   \<and> UpdateTTL_loop (Suc 1) consul_down joined =
       UpdateTTL_loop 1 consul_down (snd (UpdateTTL_body consul_down joined))"
proof -
  note sz = joined_fields(11)
  have reg: "registration c example_serializer joined =
        \<lparr>reg_ID = ''c@h:1'', reg_Name = ''c'', reg_Tags = [''A'', ''B''], reg_Address = ''h'',
         reg_Port = 1, reg_Meta = [(''StatusValue'', ''up'')],
         reg_Check = \<lparr>DeregisterCriticalServiceAfter = ''1m0s'', TTL = ''3s''\<rparr>\<rparr>"
    if "Duration_String c = Duration_String consul_up" for c :: "string consul"
    using that
    by (simp add: registration_def joined_fields Duration_String_examples example_serializer_def)
  have l1: "Agent_UpdateTTL consul_ttl_lost (trace joined) (''service:'' @ p_id joined) []
              HealthPassing = Some (ClientError ''unknown check'')"
    by (simp add: consul_ttl_lost_calls)
  have l3: "Agent_Services consul_ttl_lost
              (trace joined @ [Call_UpdateTTL (''service:'' @ p_id joined) [] HealthPassing,
                               Log log_ttl_failure])
            = ([(''c@h:1'', Service (example_entry [''A'', ''B''] []))], None)"
    by (simp add: consul_ttl_lost_calls)
  have listed: "p_id joined \<in> fst ` set [(''c@h:1'', Service (example_entry [''A'', ''B''] []))]"
    by (simp add: joined_fields)
  have a: "new_events joined (snd (UpdateTTL_body consul_ttl_lost joined)) =
     [Call_UpdateTTL ''service:c@h:1'' [] ''passing'', Log log_ttl_failure, Call_Services,
      Log log_service_found, Sleep 1000000000]"
    using UpdateTTL_body_renewal_fails [OF l1 sz l3, THEN conjunct2, THEN conjunct1, rule_format,
        OF listed]
    by (simp add: joined_fields HealthPassing_def Second_def)
  have e1: "Agent_UpdateTTL consul_evicted (trace joined) (''service:'' @ p_id joined) []
              HealthPassing = Some (ClientError ''unknown check'')"
    by (simp add: consul_evicted_calls)
  have e3: "Agent_Services consul_evicted
              (trace joined @ [Call_UpdateTTL (''service:'' @ p_id joined) [] HealthPassing,
                               Log log_ttl_failure])
            = ([], None)"
    by (simp add: consul_evicted_calls)
  have gone: "p_id joined \<notin> fst ` set ([] :: (string \<times> agent_service) list)"
    by simp
  have b: "new_events joined (snd (UpdateTTL_body consul_evicted joined)) =
     [Call_UpdateTTL ''service:c@h:1'' [] ''passing'', Log log_ttl_failure, Call_Services,
      Call_ServiceRegister
        \<lparr>reg_ID = ''c@h:1'', reg_Name = ''c'', reg_Tags = [''A'', ''B''], reg_Address = ''h'',
         reg_Port = 1, reg_Meta = [(''StatusValue'', ''up'')],
         reg_Check = \<lparr>DeregisterCriticalServiceAfter = ''1m0s'', TTL = ''3s''\<rparr>\<rparr>,
      Log log_reregistered, Sleep 1000000000]"
    using UpdateTTL_body_renewal_fails [OF e1 sz e3, THEN conjunct2, THEN conjunct2,
        THEN conjunct1, rule_format, OF gone]
    by (simp add: joined_fields HealthPassing_def Second_def reg Duration_String_examples
        consul_evicted_calls)
  have d1: "Agent_UpdateTTL consul_down (trace joined) (''service:'' @ p_id joined) []
              HealthPassing = Some (ClientError ''connection refused'')"
    by (simp add: consul_down_calls)
  have d3: "Agent_Services consul_down
              (trace joined @ [Call_UpdateTTL (''service:'' @ p_id joined) [] HealthPassing,
                               Log log_ttl_failure])
            = ([], Some (ClientError ''connection refused''))"
    by (simp add: consul_down_calls)
  note d = UpdateTTL_body_renewal_fails [OF d1 sz d3, where n = 1]
  have c: "new_events joined (snd (UpdateTTL_body consul_down joined)) =
     [Call_UpdateTTL ''service:c@h:1'' [] ''passing'', Log log_ttl_failure, Call_Services,
      Call_ServiceRegister
        \<lparr>reg_ID = ''c@h:1'', reg_Name = ''c'', reg_Tags = [''A'', ''B''], reg_Address = ''h'',
         reg_Port = 1, reg_Meta = [(''StatusValue'', ''up'')],
         reg_Check = \<lparr>DeregisterCriticalServiceAfter = ''1m0s'', TTL = ''3s''\<rparr>\<rparr>,
      Log (log_reregister_error (ClientError ''connection refused'')), Sleep 1000000000]"
    using d [THEN conjunct2, THEN conjunct2, THEN conjunct1, rule_format, OF gone]
    by (simp add: joined_fields HealthPassing_def Second_def reg Duration_String_examples
        consul_down_calls)
  have l: "UpdateTTL_loop (Suc 1) consul_down joined =
       UpdateTTL_loop 1 consul_down (snd (UpdateTTL_body consul_down joined))"
    using d [THEN conjunct2, THEN conjunct2, THEN conjunct2, rule_format, OF joined_fields(1)] .
  show ?thesis
    using a b c l joined_fields(1) by blast
qed

subsection \<open>What each function leaves alone\<close>

lemma registerService_frame:
  "registerService c w = (r, w1) \<Longrightarrow>
     shutdown w1 = shutdown w \<and> deregistered w1 = deregistered w \<and> p_id w1 = p_id w
     \<and> clusterName w1 = clusterName w \<and> knownKinds w1 = knownKinds w
     \<and> statusValueSerializer w1 = statusValueSerializer w"
  by (auto simp add: registerService_def emit_def Let_def split: option.splits)

lemma blockingUpdateTTL_frame:
  "blockingUpdateTTL c w = (r, w1) \<Longrightarrow>
     shutdown w1 = shutdown w \<and> deregistered w1 = deregistered w \<and> p_id w1 = p_id w
     \<and> clusterName w1 = clusterName w \<and> knownKinds w1 = knownKinds w
     \<and> statusValueSerializer w1 = statusValueSerializer w"
  by (auto simp add: blockingUpdateTTL_def emit_def Let_def)

lemma notifyStatuses_frame:
  assumes "notifyStatuses c w = (r, w1)"
  shows "shutdown w1 = shutdown w \<and> deregistered w1 = deregistered w \<and> p_id w1 = p_id w
         \<and> clusterName w1 = clusterName w
         \<and> statusValueSerializer w1 = statusValueSerializer w"
proof -
  let ?opts = "\<lparr>WaitIndex = index w, WaitTime = blockingWaitTime w\<rparr>"
  show ?thesis
  proof (cases "Health_Service c (trace w) (clusterName w) [] False ?opts")
    case (Inl err)
    with assms show ?thesis
      by (auto simp add: notifyStatuses_def emit_def Let_def)
  next
    case (Inr a)
    obtain statuses meta where a: "a = (statuses, meta)"
      by (cases a) auto
    let ?w2 = "(emit w (Call_HealthService (clusterName w) [] False ?opts))\<lparr>index := LastIndex meta\<rparr>"
    obtain r2 res1 w3 where run:
      "notifyStatuses_range c 0 statuses (replicate (length statuses) None) ?w2 = (r2, res1, w3)"
      by (cases "notifyStatuses_range c 0 statuses (replicate (length statuses) None) ?w2") auto
    from notifyStatuses_range_world [OF run]
    have w3: "w3 = ?w2\<lparr>knownKinds := knownKinds w3\<rparr>" .
    have keep: "shutdown w3 = shutdown w \<and> deregistered w3 = deregistered w \<and> p_id w3 = p_id w
         \<and> clusterName w3 = clusterName w
         \<and> statusValueSerializer w3 = statusValueSerializer w"
      by (subst (1 2 3 4 5) w3) (simp add: emit_def)
    have "w1 = w3 \<or> (\<exists>ev. w1 = emit w3 ev)"
      using assms Inr a run
      by (cases r2; cases "cluster w3") (auto simp add: notifyStatuses_def Let_def)
    with keep show ?thesis
      by (auto simp add: emit_def)
  qed
qed

lemma UpdateTTL_body_frame:
  "UpdateTTL_body c w = (r, w1) \<Longrightarrow>
     shutdown w1 = shutdown w \<and> deregistered w1 = deregistered w \<and> p_id w1 = p_id w
     \<and> clusterName w1 = clusterName w \<and> knownKinds w1 = knownKinds w"
  by (auto simp add: UpdateTTL_body_def blockingUpdateTTL_def registerService_def emit_def Let_def
      split: option.splits if_splits)

lemma UpdateMemberStatusValue_frame:
  "UpdateMemberStatusValue c sv w = (r, w1) \<Longrightarrow>
     shutdown w1 = shutdown w \<and> deregistered w1 = deregistered w \<and> p_id w1 = p_id w
     \<and> clusterName w1 = clusterName w \<and> knownKinds w1 = knownKinds w"
  by (auto simp add: UpdateMemberStatusValue_def registerService_def emit_def Let_def
      split: option.splits if_splits)

lemma RegisterMember_frame:
  assumes "RegisterMember c cl cname addr prt kinds sv ser w = (r, w1)"
  shows "shutdown w1 = shutdown w \<and> deregistered w1 = deregistered w
         \<and> p_id w1 = cname @ ''@'' @ addr @ '':'' @ fmt_int prt \<and> clusterName w1 = cname
         \<and> statusValueSerializer w1 = ser"
proof -
  let ?w0 = "w\<lparr>cluster := cl, p_id := cname @ ''@'' @ addr @ '':'' @ fmt_int prt,
                clusterName := cname, address := addr, port := prt, knownKinds := kinds,
                statusValue := sv, statusValueSerializer := ser\<rparr>"
  obtain r1 v1 where 1: "registerService c ?w0 = (r1, v1)"
    by (cases "registerService c ?w0") auto
  obtain r2 v2 where 2: "blockingUpdateTTL c v1 = (r2, v2)"
    by (cases "blockingUpdateTTL c v1") auto
  obtain r3 v3 where 3: "notifyStatuses c v2 = (r3, v3)"
    by (cases "notifyStatuses c v2") auto
  note f1 = registerService_frame [OF 1]
  note f2 = blockingUpdateTTL_frame [OF 2]
  note f3 = notifyStatuses_frame [OF 3]
  have "w1 = v1 \<or> w1 = v2 \<or> w1 = v3 \<or> w1 = UpdateTTL v3"
    using assms 1 2 3
    by (auto simp add: RegisterMember_def blockingStatusChange_def Let_def
        split: outcome.splits option.splits)
  then show ?thesis
    using f1 f2 f3 by (auto simp add: UpdateTTL_def emit_def)
qed

lemma DeregisterMember_frame:
  "DeregisterMember c w = (r, w1) \<Longrightarrow>
     shutdown w1 = shutdown w \<and> p_id w1 = p_id w \<and> clusterName w1 = clusterName w
     \<and> knownKinds w1 = knownKinds w
     \<and> deregistered w1 = (deregistered w \<or> Agent_ServiceDeregister c (trace w) (p_id w) = None)"
  by (auto simp add: DeregisterMember_def deregisterService_def emit_def Let_def
      split: option.splits)

lemma Shutdown_frame:
  "Shutdown c w = (r, w1) \<Longrightarrow>
     (shutdown w \<longrightarrow> shutdown w1) \<and> (deregistered w \<longrightarrow> deregistered w1)
     \<and> p_id w1 = p_id w \<and> clusterName w1 = clusterName w \<and> knownKinds w1 = knownKinds w"
  by (auto simp add: Shutdown_def DeregisterMember_def deregisterService_def emit_def Let_def
      split: option.splits if_splits)

text \<open>
  \<^verbatim>\<open>RegisterMember\<close> starts the heartbeat goroutine only on a provider that has a
  serializer: without one, \<^verbatim>\<open>registerService\<close> panics before anything else happens.
\<close>

lemma RegisterMember_heartbeat_has_serializer:
  assumes "Go HeartbeatTask \<in>
             set (new_events w (snd (RegisterMember c cl cname addr prt kinds sv ser w)))"
  shows "\<exists>sz. statusValueSerializer (snd (RegisterMember c cl cname addr prt kinds sv ser w))
               = Some sz"
proof (cases ser)
  case None
  then have "new_events w (snd (RegisterMember c cl cname addr prt kinds sv ser w)) = []"
    by (simp add: RegisterMember_def registerService_def new_events_def Let_def)
  with assms show ?thesis by simp
next
  case (Some sz)
  then show ?thesis
    using RegisterMember_frame [of c cl cname addr prt kinds sv ser w]
    by (cases "RegisterMember c cl cname addr prt kinds sv ser w") simp
qed

lemma exec_flags:
  "(shutdown w \<longrightarrow> shutdown (exec c op w)) \<and> (deregistered w \<longrightarrow> deregistered (exec c op w))"
proof (cases op)
  case (Op_RegisterMember cl cname addr prt kinds sv ser)
  then show ?thesis
    using RegisterMember_frame [of c cl cname addr prt kinds sv ser w]
    by (cases "RegisterMember c cl cname addr prt kinds sv ser w") simp
next
  case Op_DeregisterMember
  then show ?thesis
    using DeregisterMember_frame [of c w] by (cases "DeregisterMember c w") simp
next
  case Op_Shutdown
  then show ?thesis
    using Shutdown_frame [of c w] by (cases "Shutdown c w") simp
next
  case Op_UpdateTTL
  then show ?thesis by (simp add: UpdateTTL_def emit_def)
next
  case Op_UpdateTTL_pass
  then show ?thesis
    using UpdateTTL_body_frame [of c w] by (cases "UpdateTTL_body c w") simp
next
  case (Op_UpdateMemberStatusValue sv)
  then show ?thesis
    using UpdateMemberStatusValue_frame [of c sv w]
    by (cases "UpdateMemberStatusValue c sv w") simp
next
  case Op_blockingStatusChange
  then show ?thesis
    using notifyStatuses_frame [of c w]
    by (cases "notifyStatuses c w") (simp add: blockingStatusChange_def)
next
  case Op_MonitorMemberStatusChanges
  then show ?thesis by (simp add: MonitorMemberStatusChanges_def emit_def)
next
  case Op_MonitorMemberStatusChanges_pass
  then show ?thesis
    using notifyStatuses_frame [of c w] by (cases "notifyStatuses c w") simp
next
  case Op_GetHealthStatus
  then show ?thesis by simp
qed

lemma run_flags:
  "(shutdown w \<longrightarrow> shutdown (run c ops w)) \<and> (deregistered w \<longrightarrow> deregistered (run c ops w))"
proof (induction ops arbitrary: w)
  case Nil
  show ?case by simp
next
  case (Cons op ops)
  show ?case
    using exec_flags [of w c op] Cons.IH [of "exec c op w"] by simp
qed

lemma exec_deregistered_cause:
  assumes "\<not> deregistered w" and "deregistered (exec c op w)"
  shows "\<exists>tr. trace (exec c op w) = tr @ [Call_ServiceDeregister (p_id w)]
              \<and> Agent_ServiceDeregister c tr (p_id w) = None"
proof (cases op)
  case (Op_RegisterMember cl cname addr prt kinds sv ser)
  then show ?thesis
    using assms RegisterMember_frame [of c cl cname addr prt kinds sv ser w]
    by (cases "RegisterMember c cl cname addr prt kinds sv ser w") simp
next
  case Op_DeregisterMember
  then show ?thesis
    using assms
    by (auto simp add: DeregisterMember_def deregisterService_def emit_def
        split: option.splits)
next
  case Op_Shutdown
  then show ?thesis
    using assms
    by (auto simp add: Shutdown_def DeregisterMember_def deregisterService_def emit_def Let_def
        split: option.splits if_splits)
next
  case Op_UpdateTTL
  then show ?thesis using assms by (simp add: UpdateTTL_def emit_def)
next
  case Op_UpdateTTL_pass
  then show ?thesis
    using assms UpdateTTL_body_frame [of c w] by (cases "UpdateTTL_body c w") (auto split: if_splits)
next
  case (Op_UpdateMemberStatusValue sv)
  then show ?thesis
    using assms UpdateMemberStatusValue_frame [of c sv w]
    by (cases "UpdateMemberStatusValue c sv w") simp
next
  case Op_blockingStatusChange
  then show ?thesis
    using assms notifyStatuses_frame [of c w]
    by (cases "notifyStatuses c w") (simp add: blockingStatusChange_def)
next
  case Op_MonitorMemberStatusChanges
  then show ?thesis using assms by (simp add: MonitorMemberStatusChanges_def emit_def)
next
  case Op_MonitorMemberStatusChanges_pass
  then show ?thesis
    using assms notifyStatuses_frame [of c w] by (cases "notifyStatuses c w") (auto split: if_splits)
next
  case Op_GetHealthStatus
  then show ?thesis using assms by simp
qed

subsection \<open>The two flags\<close>

text \<open>
  Claim C6. The flags \<open>shutdown\<close> and \<open>deregistered\<close> never go back from true to false:
  whatever methods are called and whatever passes the two goroutines make, in any order
  and against any directory, a flag that is set stays set. \<^verbatim>\<open>DeregisterMember\<close> leaves
  \<open>deregistered\<close> as it was when the directory refuses the deregistration, and returns
  the error. When a step sets \<open>deregistered\<close>, the last effect of that step is a
  \<^verbatim>\<open>ServiceDeregister\<close> that the directory accepted.
\<close>

theorem flags_monotonic:
  "(shutdown w \<longrightarrow> shutdown (run c ops w))
   \<and> (deregistered w \<longrightarrow> deregistered (run c ops w))
   \<and> (Agent_ServiceDeregister c (trace w) (p_id w) = Some err \<longrightarrow>
        fst (DeregisterMember c w) = Some err
        \<and> deregistered (snd (DeregisterMember c w)) = deregistered w)
   \<and> (\<not> deregistered w \<and> deregistered (exec c op w) \<longrightarrow>
        (\<exists>tr. trace (exec c op w) = tr @ [Call_ServiceDeregister (p_id w)]
              \<and> Agent_ServiceDeregister c tr (p_id w) = None))"
proof -
  have fail: "fst (DeregisterMember c w) = Some err
        \<and> deregistered (snd (DeregisterMember c w)) = deregistered w"
    if "Agent_ServiceDeregister c (trace w) (p_id w) = Some err"
    using that by (simp add: DeregisterMember_def deregisterService_def emit_def)
  show ?thesis
    using run_flags [of w c ops] fail exec_deregistered_cause [of w c op] by blast
qed

theorem flags_monotonic_witness:
  "shutdown departed \<and> deregistered departed
   \<and> shutdown (run consul_down
        [Op_RegisterMember (Some 0) ''c'' ''h'' 1 [''A''] None (Some example_serializer),
         Op_UpdateTTL_pass, Op_MonitorMemberStatusChanges_pass,
         Op_UpdateMemberStatusValue (Some ''busy''), Op_DeregisterMember, Op_Shutdown] departed)
   \<and> deregistered (run consul_down
        [Op_RegisterMember (Some 0) ''c'' ''h'' 1 [''A''] None (Some example_serializer),
         Op_UpdateTTL_pass, Op_MonitorMemberStatusChanges_pass,
         Op_UpdateMemberStatusValue (Some ''busy''), Op_DeregisterMember, Op_Shutdown] departed)
   \<and> Agent_ServiceDeregister consul_down (trace joined) (p_id joined)
       = Some (ClientError ''connection refused'')
   \<and> fst (DeregisterMember consul_down joined) = Some (ClientError ''connection refused'')
   \<and> \<not> deregistered (snd (DeregisterMember consul_down joined))
   \<and> \<not> deregistered joined \<and> deregistered (exec consul_up Op_Shutdown joined)
   \<and> (\<exists>tr. trace (exec consul_up Op_Shutdown joined) = tr @ [Call_ServiceDeregister (p_id joined)]
           \<and> Agent_ServiceDeregister consul_up tr (p_id joined) = None)"
proof -
  let ?ops = "[Op_RegisterMember (Some 0) ''c'' ''h'' 1 [''A''] None (Some example_serializer),
         Op_UpdateTTL_pass, Op_MonitorMemberStatusChanges_pass,
         Op_UpdateMemberStatusValue (Some ''busy''), Op_DeregisterMember, Op_Shutdown]"
  have refused: "Agent_ServiceDeregister consul_down (trace joined) (p_id joined)
                   = Some (ClientError ''connection refused'')"
    by (simp add: consul_down_calls)
  have set: "deregistered (exec consul_up Op_Shutdown joined)"
    using departed_fields(2) by (simp add: departed_def)
  note a = flags_monotonic [of departed consul_down ?ops]
  note b = flags_monotonic [of joined consul_down _ "ClientError ''connection refused''"]
  note c = flags_monotonic [of joined consul_up _ _ Op_Shutdown]
  have 1: "shutdown (run consul_down ?ops departed)"
    using a departed_fields(1) by blast
  have 2: "deregistered (run consul_down ?ops departed)"
    using a departed_fields(2) by blast
  have 3: "fst (DeregisterMember consul_down joined) = Some (ClientError ''connection refused'')
           \<and> \<not> deregistered (snd (DeregisterMember consul_down joined))"
    using b refused joined_fields(2) by blast
  have 4: "\<exists>tr. trace (exec consul_up Op_Shutdown joined) = tr @ [Call_ServiceDeregister (p_id joined)]
           \<and> Agent_ServiceDeregister consul_up tr (p_id joined) = None"
    using c set joined_fields(2) by blast
  show ?thesis
    using 1 2 3 4 refused set departed_fields(1,2) joined_fields(2) by blast
qed

subsection \<open>The watch and the cached kinds\<close>

text \<open>
  \<^verbatim>\<open>notifyStatuses\<close> builds the identity of a member with \<^verbatim>\<open>/\<close> after the cluster name,
  \<^verbatim>\<open>RegisterMember\<close> builds the identity of the provider with \<^verbatim>\<open>@\<close> there. The two are
  never equal, so the assignment to \<open>knownKinds\<close> in the loop is never reached.
\<close>

lemma MemberID_differs:
  "id_from_join w \<Longrightarrow> MemberID (memberStatus c sz (clusterName w) v) \<noteq> p_id w"
  by (auto simp add: id_from_join_def memberStatus_def Let_def)

lemma notifyStatuses_range_keeps:
  "id_from_join w \<Longrightarrow> snd (snd (notifyStatuses_range c i vs res w)) = w"
proof (induction vs arbitrary: i res)
  case Nil
  show ?case by simp
next
  case (Cons v vs)
  show ?case
  proof (cases "statusValueSerializer w")
    case None
    then show ?thesis by simp
  next
    case (Some sz)
    then show ?thesis
      using Cons.IH [OF Cons.prems] MemberID_differs [OF Cons.prems, of c sz v]
      by (simp add: Let_def)
  qed
qed

lemma notifyStatuses_keeps_knownKinds:
  assumes "id_from_join w"
  shows "knownKinds (snd (notifyStatuses c w)) = knownKinds w"
proof -
  let ?opts = "\<lparr>WaitIndex = index w, WaitTime = blockingWaitTime w\<rparr>"
  show ?thesis
  proof (cases "Health_Service c (trace w) (clusterName w) [] False ?opts")
    case (Inl err)
    then show ?thesis
      by (simp add: notifyStatuses_def emit_def Let_def)
  next
    case (Inr a)
    obtain statuses meta where a: "a = (statuses, meta)"
      by (cases a) auto
    let ?w2 = "(emit w (Call_HealthService (clusterName w) [] False ?opts))\<lparr>index := LastIndex meta\<rparr>"
    have "id_from_join ?w2"
      using assms by (simp add: id_from_join_def emit_def)
    from notifyStatuses_range_keeps [OF this]
    have keep: "snd (snd (notifyStatuses_range c 0 statuses (replicate (length statuses) None) ?w2))
                = ?w2" .
    obtain r2 res1 w3 where run:
      "notifyStatuses_range c 0 statuses (replicate (length statuses) None) ?w2 = (r2, res1, w3)"
      by (cases "notifyStatuses_range c 0 statuses (replicate (length statuses) None) ?w2") auto
    with keep have w3: "w3 = ?w2"
      by simp
    show ?thesis
      using Inr a run
      by (cases r2; cases "cluster w")
         (simp_all add: notifyStatuses_def Let_def w3 emit_def)
  qed
qed

lemma exec_id_from_join:
  assumes "id_from_join w"
  shows "id_from_join (exec c op w)"
proof -
  have same: "id_from_join w1" if "p_id w1 = p_id w" and "clusterName w1 = clusterName w" for w1
    using assms that by (simp add: id_from_join_def)
  show ?thesis
  proof (cases op)
    case (Op_RegisterMember cl cname addr prt kinds sv ser)
    then show ?thesis
      using RegisterMember_frame [of c cl cname addr prt kinds sv ser w]
      by (cases "RegisterMember c cl cname addr prt kinds sv ser w")
         (auto simp add: id_from_join_def)
  next
    case Op_DeregisterMember
    then show ?thesis
      using DeregisterMember_frame [of c w] by (cases "DeregisterMember c w") (auto intro: same)
  next
    case Op_Shutdown
    then show ?thesis
      using Shutdown_frame [of c w] by (cases "Shutdown c w") (auto intro: same)
  next
    case Op_UpdateTTL
    then show ?thesis by (auto simp add: UpdateTTL_def emit_def intro: same)
  next
    case Op_UpdateTTL_pass
    then show ?thesis
      using UpdateTTL_body_frame [of c w] assms by (cases "UpdateTTL_body c w") (auto intro: same)
  next
    case (Op_UpdateMemberStatusValue sv)
    then show ?thesis
      using UpdateMemberStatusValue_frame [of c sv w]
      by (cases "UpdateMemberStatusValue c sv w") (auto intro: same)
  next
    case Op_blockingStatusChange
    then show ?thesis
      using notifyStatuses_frame [of c w]
      by (cases "notifyStatuses c w") (auto simp add: blockingStatusChange_def intro: same)
  next
    case Op_MonitorMemberStatusChanges
    then show ?thesis by (auto simp add: MonitorMemberStatusChanges_def emit_def intro: same)
  next
    case Op_MonitorMemberStatusChanges_pass
    then show ?thesis
      using notifyStatuses_frame [of c w] assms by (cases "notifyStatuses c w") (auto intro: same)
  next
    case Op_GetHealthStatus
    then show ?thesis using assms by simp
  qed
qed

lemma run_id_from_join: "id_from_join w \<Longrightarrow> id_from_join (run c ops w)"
  by (induction ops arbitrary: w) (simp_all add: exec_id_from_join)

text \<open>
  So in no state that a new provider can reach does a watch change the cached kinds,
  whatever the directory answers.
\<close>

lemma watch_never_refreshes_knownKinds:
  "knownKinds (snd (notifyStatuses c1 (run c ops newProvider))) = knownKinds (run c ops newProvider)"
proof -
  have "id_from_join (newProvider :: 'a world)"
    by (simp add: id_from_join_def newProvider_def)
  then have "id_from_join (run c ops (newProvider :: 'a world))"
    by (rule run_id_from_join)
  then show ?thesis
    by (rule notifyStatuses_keeps_knownKinds)
qed

text \<open>
  Claim C1, on the scenario it gives. The provider has joined with the kinds \<^verbatim>\<open>A\<close> and
  \<^verbatim>\<open>B\<close>. The next answer to the watch lists this instance (its identity \<^verbatim>\<open>c@h:1\<close>, its
  address and its port) with the kind \<^verbatim>\<open>A\<close> alone. After \<^verbatim>\<open>notifyStatuses\<close> the cached
  kinds are still \<^verbatim>\<open>A\<close> and \<^verbatim>\<open>B\<close>, where the claim has \<^verbatim>\<open>A\<close>; the member published for
  the instance has the identity \<^verbatim>\<open>c/h:1\<close>.
\<close>

theorem knownKinds_stale_after_watch:
  "joined = snd (RegisterMember consul_up (Some 0) ''c'' ''h'' 1 [''A'', ''B''] (Some ''up'')
                   (Some example_serializer) newProvider)
   \<and> knownKinds joined = [''A'', ''B'']
   \<and> p_id joined = ''c@h:1''
   \<and> Health_Service consul_up (trace joined) (clusterName joined) [] False
       \<lparr>WaitIndex = index joined, WaitTime = blockingWaitTime joined\<rparr> =
     Inr ([\<lparr>Service = \<lparr>svc_ID = ''c@h:1'', svc_Service = ''c'', svc_Tags = [''A''], svc_Port = 1,
                       svc_Address = ''h'', svc_Meta = [(''StatusValue'', ''up'')]\<rparr>,
            Checks = [\<lparr>CheckID = ''service:c@h:1'', Status = ''passing''\<rparr>]\<rparr>,
           \<lparr>Service = \<lparr>svc_ID = ''c@h:2'', svc_Service = ''c'', svc_Tags = [''B''], svc_Port = 2,
                       svc_Address = ''h'', svc_Meta = [(''StatusValue'', ''up'')]\<rparr>,
            Checks = []\<rparr>],
          \<lparr>LastIndex = 2\<rparr>)
   \<and> new_events joined (snd (notifyStatuses consul_up joined)) =
       [Call_HealthService ''c'' [] False \<lparr>WaitIndex = 1, WaitTime = 20000000000\<rparr>,
        Publish 0
          [Some \<lparr>MemberID = ''c/h:1'', Host = ''h'', Port = 1, Kinds = [''A''], Alive = True,
                 StatusValue = Some ''up''\<rparr>,
           Some \<lparr>MemberID = ''c/h:2'', Host = ''h'', Port = 2, Kinds = [''B''], Alive = False,
                 StatusValue = Some ''up''\<rparr>]]
   \<and> knownKinds (snd (notifyStatuses consul_up joined)) = [''A'', ''B'']"
proof -
  have q: "Health_Service consul_up (trace joined) (clusterName joined) [] False
       \<lparr>WaitIndex = index joined, WaitTime = blockingWaitTime joined\<rparr> =
     Inr ([\<lparr>Service = \<lparr>svc_ID = ''c@h:1'', svc_Service = ''c'', svc_Tags = [''A''], svc_Port = 1,
                       svc_Address = ''h'', svc_Meta = [(''StatusValue'', ''up'')]\<rparr>,
            Checks = [\<lparr>CheckID = ''service:c@h:1'', Status = ''passing''\<rparr>]\<rparr>,
           \<lparr>Service = \<lparr>svc_ID = ''c@h:2'', svc_Service = ''c'', svc_Tags = [''B''], svc_Port = 2,
                       svc_Address = ''h'', svc_Meta = [(''StatusValue'', ''up'')]\<rparr>,
            Checks = []\<rparr>],
          \<lparr>LastIndex = 2\<rparr>)"
    by (simp add: second_watch example_entry_def ttl_check_def)
  have k: "knownKinds (snd (notifyStatuses consul_up joined)) = [''A'', ''B'']"
    by (simp add: joined_eq provider_defs example_defs)
  show ?thesis
    using q k second_watch_events joined_fields(3,7) joined_def by blast
qed

end
